theory Spec2Isabelle
  imports
    Complex_Main
    "HOL-Library.Sublist"
    "HOL-Library.Char_ord"
    "HOL-Library.List_Lexorder"
    "HOL-Library.Product_Lexorder"
begin

section \<open>Values, exceptions and effects\<close>

text \<open>
  The module \<^verbatim>\<open>agent/api.py\<close> is a set of asynchronous request handlers around
  collaborators that are imported and not part of the sources: the conversation store
  (\<^verbatim>\<open>db_utils\<close>), the reasoning agent (\<^verbatim>\<open>rag_agent\<close>), the request and response models
  (\<^verbatim>\<open>models\<close>) and the web framework. The handlers are embedded as functions over an
  explicit world: every collaborator is a field of an environment record, a call to it
  is recorded in the trace of the run together with its outcome, every \<^verbatim>\<open>yield\<close> of a
  streaming generator is recorded in the same trace, and every \<^verbatim>\<open>raise\<close> is a value.
\<close>

text \<open>
  JSON-like Python values: \<^verbatim>\<open>Dict[str, Any]\<close> is an association list in insertion order, and
  the numbers that occur (counts of tool calls) are integers.
\<close>

datatype json =
    JNull
  | JBool bool
  | JInt int
  | JStr string
  | JArr "json list"
  | JObj "(string \<times> json) list"

type_synonym dict = "(string \<times> json) list"

text \<open>
  Exceptions deriving from \<^verbatim>\<open>Exception\<close>: the framework's \<^verbatim>\<open>HTTPException(status_code, detail)\<close>
  and any other exception, kept by its message.
\<close>

datatype exn =
    HTTPException nat string
  | Exception string

text \<open>Python's \<^verbatim>\<open>sub in s\<close> on strings.\<close>

fun contains :: "string \<Rightarrow> string \<Rightarrow> bool" where
  "contains sub [] = (sub = [])"
| "contains sub (c # cs) = (prefix sub (c # cs) \<or> contains sub cs)"

text \<open>Python's \<^verbatim>\<open>sep.join(xs)\<close>.\<close>

fun join :: "string \<Rightarrow> string list \<Rightarrow> string" where
  "join sep [] = []"
| "join sep [x] = x"
| "join sep (x # y # ys) = x @ sep @ join sep (y # ys)"

text \<open>Python's \<^verbatim>\<open>xs[i:]\<close>, for any integer \<open>i\<close>: a negative index counts from the end.\<close>

definition slice_from :: "'a list \<Rightarrow> int \<Rightarrow> 'a list" where
  "slice_from xs i =
     (let n = int (length xs);
          j = (if i < 0 then max 0 (n + i) else min i n)
      in drop (nat j) xs)"

section \<open>Tool calls of an agent run\<close>

text \<open>
  A part of a model message is inspected reflectively by \<^verbatim>\<open>extract_tool_calls\<close>: its class
  name, and the attributes it may or may not have. \<open>None\<close> in a field means that
  \<^verbatim>\<open>hasattr\<close> is false.
\<close>

datatype py_args =
    ArgsNone
  | ArgsStr string
  | ArgsDict dict
  | ArgsOther

record part =
  part_class_name :: string
  part_tool_name :: "string option"
  part_args :: "py_args option"
  part_args_as_dict :: "(exn + json) option"
  part_tool_call_id :: "string option option"

text \<open>
  The result object of an agent run: \<^verbatim>\<open>result.data\<close> and \<^verbatim>\<open>result.all_messages()\<close>, which
  may raise. A message is the list of its parts, or \<open>None\<close> when it has no \<^verbatim>\<open>parts\<close>.
\<close>

record agent_result =
  result_data :: string
  result_all_messages :: "exn + part list option list"

record ToolCall =
  tool_name :: string
  args :: dict
  tool_call_id :: "string option"

text \<open>
  Modelled from the spec: the constructor of \<^verbatim>\<open>ToolCall\<close> (declared in \<^verbatim>\<open>models\<close>, which
  is not among the sources). The data model gives a tool call a name, arguments that are
  a mapping from strings to values, and an identifier; the validating constructor
  raises when the arguments are not a mapping.
\<close>

definition ToolCall_init :: "string \<Rightarrow> json \<Rightarrow> string option \<Rightarrow> exn + ToolCall" where
  "ToolCall_init n a i =
     (case a of
        JObj d \<Rightarrow> Inr \<lparr>tool_name = n, args = d, tool_call_id = i\<rparr>
      | _ \<Rightarrow> Inl (Exception ''ValidationError''))"

text \<open>
  The arguments of one tool-call part as \<^verbatim>\<open>extract_tool_calls\<close> computes them:
  \<^verbatim>\<open>json.loads\<close> (a parameter; \<open>None\<close> is \<^verbatim>\<open>JSONDecodeError\<close>) on a string, the dictionary
  itself, and then \<^verbatim>\<open>args_as_dict()\<close> when the part has it and it does not raise.
\<close>

definition decode_args :: "(string \<Rightarrow> json option) \<Rightarrow> part \<Rightarrow> json" where
  "decode_args json_loads p =
     (let tool_args =
            (case part_args p of
               Some (ArgsStr s) \<Rightarrow>
                 (case json_loads s of Some v \<Rightarrow> v | None \<Rightarrow> JObj [])
             | Some (ArgsDict d) \<Rightarrow> JObj d
             | _ \<Rightarrow> JObj [])
      in case part_args_as_dict p of
           Some (Inr v) \<Rightarrow> v
         | _ \<Rightarrow> tool_args)"

text \<open>The body of the inner \<^verbatim>\<open>try\<close>: one tool-call part to one \<^verbatim>\<open>ToolCall\<close>.\<close>

definition parse_tool_call_part :: "(string \<Rightarrow> json option) \<Rightarrow> part \<Rightarrow> exn + ToolCall" where
  "parse_tool_call_part json_loads p =
     (let tool_name = (case part_tool_name p of Some n \<Rightarrow> n | None \<Rightarrow> ''unknown'');
          tool_args = decode_args json_loads p;
          tool_call_id =
            (case part_tool_call_id p of
               Some (Some i) \<Rightarrow> if i \<noteq> [] then Some i else None
             | _ \<Rightarrow> None)
      in ToolCall_init tool_name tool_args tool_call_id)"

text \<open>The loop over the parts of one message; an exception skips the part.\<close>

fun extract_parts ::
  "(string \<Rightarrow> json option) \<Rightarrow> part list \<Rightarrow> ToolCall list \<Rightarrow> ToolCall list" where
  "extract_parts json_loads [] tools_used = tools_used"
| "extract_parts json_loads (p # ps) tools_used =
     (if part_class_name p = ''ToolCallPart'' then
        (case parse_tool_call_part json_loads p of
           Inr tc \<Rightarrow> extract_parts json_loads ps (tools_used @ [tc])
         | Inl e \<Rightarrow> extract_parts json_loads ps tools_used)
      else extract_parts json_loads ps tools_used)"

text \<open>The loop over the messages.\<close>

fun extract_messages ::
  "(string \<Rightarrow> json option) \<Rightarrow> part list option list \<Rightarrow> ToolCall list \<Rightarrow> ToolCall list" where
  "extract_messages json_loads [] tools_used = tools_used"
| "extract_messages json_loads (m # ms) tools_used =
     (case m of
        Some ps \<Rightarrow> extract_messages json_loads ms (extract_parts json_loads ps tools_used)
      | None \<Rightarrow> extract_messages json_loads ms tools_used)"

definition extract_tool_calls :: "(string \<Rightarrow> json option) \<Rightarrow> agent_result \<Rightarrow> ToolCall list" where
  "extract_tool_calls json_loads result =
     (case result_all_messages result of
        Inl e \<Rightarrow> []
      | Inr messages \<Rightarrow> extract_messages json_loads messages [])"

section \<open>Requests, responses and wire events\<close>

text \<open>The request and response models of \<^verbatim>\<open>models\<close>, with the fields the handlers use.\<close>

record OpenAIMessage =
  msg_role :: string
  msg_content :: string

record OpenAIChatRequest =
  req_model :: string
  req_messages :: "OpenAIMessage list"
  req_stream :: bool
  req_user :: "string option"

record ChatRequest =
  message :: string
  session_id :: "string option"
  user_id :: "string option"
  metadata :: dict
  search_type :: string

record OpenAIChoice =
  choice_index :: nat
  choice_message :: "OpenAIMessage option"
  choice_delta :: "string option option"
  finish_reason :: "string option"

record OpenAIUsage =
  prompt_tokens :: nat
  completion_tokens :: nat
  total_tokens :: nat

record OpenAIChatResponse =
  resp_id :: string
  resp_object :: string
  resp_created :: int
  resp_model :: string
  resp_choices :: "OpenAIChoice list"
  resp_usage :: "OpenAIUsage option"

record ChatResponse =
  resp_message :: string
  resp_session_id :: string
  resp_tools_used :: "ToolCall list"
  resp_metadata :: dict

text \<open>A row of the conversation store as \<^verbatim>\<open>get_session_messages\<close> returns it.\<close>

record stored_message =
  row_role :: string
  row_content :: string
  row_rest :: dict

text \<open>
  The events of \<^verbatim>\<open>node.stream\<close>: a part start with its kind and content, a part delta,
  or anything else; and the nodes of \<^verbatim>\<open>rag_agent.iter\<close>.
\<close>

datatype part_delta =
    TextPartDelta string
  | OtherDelta

datatype stream_event =
    PartStartEvent string string
  | PartDeltaEvent part_delta
  | OtherEvent

datatype node =
    ModelRequestNode "stream_event list"
  | OtherNode

text \<open>
  One iteration of the agent: the nodes and events it produces, the exception that ends
  it after them (if any), and \<^verbatim>\<open>run.result\<close>.
\<close>

record agent_iteration =
  iter_nodes :: "node list"
  iter_failure :: "exn option"
  iter_result :: agent_result

text \<open>
  What a generator yields. Each is one record \<^verbatim>\<open>data: <payload>\<close> and a blank line on
  the wire: the native events are JSON objects with a \<^verbatim>\<open>type\<close>, the compatibility
  events are chunk objects and the \<^verbatim>\<open>[DONE]\<close> sentinel.
\<close>

datatype wire =
    SessionEvent string
  | TextEvent string
  | ToolsEvent "ToolCall list"
  | EndEvent
  | ErrorEvent string
  | Chunk OpenAIChatResponse
  | Done

text \<open>
  Calls to the collaborators, and what a run leaves in its trace: the calls with the
  exception they raised, if any, the records a generator yields, and the lines written
  with \<^verbatim>\<open>logger.error\<close>. Informational and debug lines are not traced.
\<close>

datatype call =
    CreateSession "string option" dict
  | GetSession string
  | AddMessage string string string dict
  | GetSessionMessages string int
  | AgentRun string string "string option"
  | AgentIter string string "string option"

datatype action =
    Call call "exn option"
  | Yield wire
  | LogError string

text \<open>
  The collaborators, over a world \<open>'w\<close> that the sources do not show. \<^verbatim>\<open>str()\<close> of an
  \<^verbatim>\<open>HTTPException\<close> is the framework's and is a parameter too.
\<close>

record 'w env =
  create_session :: "string option \<Rightarrow> dict \<Rightarrow> 'w \<Rightarrow> (exn + string) \<times> 'w"
  get_session :: "string \<Rightarrow> 'w \<Rightarrow> (exn + dict option) \<times> 'w"
  add_message :: "string \<Rightarrow> string \<Rightarrow> string \<Rightarrow> dict \<Rightarrow> 'w \<Rightarrow> (exn + unit) \<times> 'w"
  get_session_messages :: "string \<Rightarrow> int \<Rightarrow> 'w \<Rightarrow> (exn + stored_message list) \<times> 'w"
  agent_run :: "string \<Rightarrow> string \<Rightarrow> string option \<Rightarrow> 'w \<Rightarrow> (exn + agent_result) \<times> 'w"
  agent_iter :: "string \<Rightarrow> string \<Rightarrow> string option \<Rightarrow> 'w \<Rightarrow> agent_iteration \<times> 'w"
  json_loads :: "string \<Rightarrow> json option"
  uuid4_hex :: "'w \<Rightarrow> string \<times> 'w"
  time_time :: "'w \<Rightarrow> int \<times> 'w"
  http_exception_str :: "nat \<Rightarrow> string \<Rightarrow> string"

text \<open>
  The state of a run is the world and the trace of the actions performed so far, in
  order. A computation takes the state and returns a value or an exception, and the new
  state.
\<close>

type_synonym 'w state = "'w \<times> action list"

type_synonym ('a, 'w) io = "'w state \<Rightarrow> (exn + 'a) \<times> 'w state"

definition ret :: "'a \<Rightarrow> ('a, 'w) io" where
  "ret x = (\<lambda>s. (Inr x, s))"

definition raise :: "exn \<Rightarrow> ('a, 'w) io" where
  "raise e = (\<lambda>s. (Inl e, s))"

definition bnd :: "('a, 'w) io \<Rightarrow> ('a \<Rightarrow> ('b, 'w) io) \<Rightarrow> ('b, 'w) io" where
  "bnd m f =
     (\<lambda>s. case m s of
        (Inl e, s1) \<Rightarrow> (Inl e, s1)
      | (Inr x, s1) \<Rightarrow> f x s1)"

definition try_except :: "('a, 'w) io \<Rightarrow> (exn \<Rightarrow> ('a, 'w) io) \<Rightarrow> ('a, 'w) io" where
  "try_except m h =
     (\<lambda>s. case m s of
        (Inr x, s1) \<Rightarrow> (Inr x, s1)
      | (Inl e, s1) \<Rightarrow> h e s1)"

text \<open>An action is appended to the trace; a yield and an error log are actions.\<close>

definition emit :: "action \<Rightarrow> (unit, 'w) io" where
  "emit a = (\<lambda>s. (Inr (), (fst s, snd s @ [a])))"

text \<open>A call to a collaborator changes the world and is recorded with its outcome.\<close>

definition invoke :: "call \<Rightarrow> ('w \<Rightarrow> (exn + 'a) \<times> 'w) \<Rightarrow> ('a, 'w) io" where
  "invoke c f =
     (\<lambda>s. case f (fst s) of
        (r, w1) \<Rightarrow>
          (r, (w1, snd s @ [Call c (case r of Inl e \<Rightarrow> Some e | Inr x \<Rightarrow> None)])))"

text \<open>Reading the clock or a random identifier changes the world and leaves no trace.\<close>

definition effect :: "('w \<Rightarrow> 'a \<times> 'w) \<Rightarrow> ('a, 'w) io" where
  "effect f = (\<lambda>s. case f (fst s) of (x, w1) \<Rightarrow> (Inr x, (w1, snd s)))"

text \<open>A run from a world, with an empty trace.\<close>

definition run :: "('a, 'w) io \<Rightarrow> 'w \<Rightarrow> (exn + 'a) \<times> 'w state" where
  "run m w = m (w, [])"

text \<open>Python's \<^verbatim>\<open>str(e)\<close>.\<close>

definition str_exn :: "'w env \<Rightarrow> exn \<Rightarrow> string" where
  "str_exn env e =
     (case e of
        Exception m \<Rightarrow> m
      | HTTPException status detail \<Rightarrow> http_exception_str env status detail)"

text \<open>The newline, and an optional string as a value (\<^verbatim>\<open>None\<close> is null).\<close>

definition nl :: string where
  "nl = [CHR 0x0A]"

definition opt_str :: "string option \<Rightarrow> json" where
  "opt_str v = (case v of None \<Rightarrow> JNull | Some s \<Rightarrow> JStr s)"

section \<open>Helpers of the compatibility endpoint\<close>

definition convert_openai_to_internal :: "OpenAIChatRequest \<Rightarrow> exn + string \<times> string option" where
  "convert_openai_to_internal openai_request =
     (let user_messages = filter (\<lambda>msg. msg_role msg = ''user'') (req_messages openai_request)
      in if user_messages = [] then
           Inl (HTTPException 400 ''No user message found in request'')
         else Inr (msg_content (last user_messages), req_user openai_request))"

text \<open>Python's \<^verbatim>\<open>str.split()\<close> with no argument, on ASCII white space.\<close>

definition is_space :: "char \<Rightarrow> bool" where
  "is_space c = (of_char c \<in> {9, 10, 11, 12, 13, 28, 29, 30, 31, 32 :: nat})"

fun split_acc :: "string \<Rightarrow> string \<Rightarrow> string list" where
  "split_acc cur [] = (if cur = [] then [] else [cur])"
| "split_acc cur (c # cs) =
     (if is_space c then (if cur = [] then split_acc [] cs else cur # split_acc [] cs)
      else split_acc (cur @ [c]) cs)"

definition py_split :: "string \<Rightarrow> string list" where
  "py_split s = split_acc [] s"

text \<open>
  \<^verbatim>\<open>create_openai_response\<close>. The token estimate \<^verbatim>\<open>int(len(content.split()) * 1.3)\<close> is
  written with integers: \<open>13 * n div 10\<close>. The function does not use its \<^verbatim>\<open>session_id\<close>
  argument.
\<close>

definition create_openai_response ::
  "'w env \<Rightarrow> string \<Rightarrow> string \<Rightarrow> string \<Rightarrow> bool \<Rightarrow> (OpenAIChatResponse, 'w) io" where
  "create_openai_response env content sid model is_stream =
     bnd (effect (uuid4_hex env)) (\<lambda>u.
     bnd (effect (time_time env)) (\<lambda>timestamp.
       let response_id = ''chatcmpl-'' @ take 8 u;
           choice =
             (if is_stream then
                \<lparr>choice_index = 0, choice_message = None,
                 choice_delta = Some (Some content), finish_reason = None\<rparr>
              else
                \<lparr>choice_index = 0,
                 choice_message = Some \<lparr>msg_role = ''assistant'', msg_content = content\<rparr>,
                 choice_delta = None, finish_reason = Some ''stop''\<rparr>);
           object_type = (if is_stream then ''chat.completion.chunk'' else ''chat.completion'');
           estimated_tokens = 13 * length (py_split content) div 10;
           usage =
             (if \<not> is_stream then
                Some \<lparr>prompt_tokens = 50, completion_tokens = estimated_tokens,
                      total_tokens = estimated_tokens + 50\<rparr>
              else None)
       in ret \<lparr>resp_id = response_id, resp_object = object_type, resp_created = timestamp,
               resp_model = model, resp_choices = [choice], resp_usage = usage\<rparr>))"

section \<open>Helpers of agent execution\<close>

text \<open>Python's truth value of an optional dictionary.\<close>

definition truthy :: "dict option \<Rightarrow> bool" where
  "truthy session = (case session of None \<Rightarrow> False | Some d \<Rightarrow> d \<noteq> [])"

definition get_or_create_session :: "'w env \<Rightarrow> ChatRequest \<Rightarrow> (string, 'w) io" where
  "get_or_create_session env request =
     (let create_new =
            invoke (CreateSession (user_id request) (metadata request))
              (create_session env (user_id request) (metadata request))
      in case session_id request of
           None \<Rightarrow> create_new
         | Some sid \<Rightarrow>
             if sid \<noteq> [] then
               bnd (invoke (GetSession sid) (get_session env sid)) (\<lambda>session.
                 if truthy session then ret sid else create_new)
             else create_new)"

definition get_conversation_context ::
  "'w env \<Rightarrow> string \<Rightarrow> int \<Rightarrow> ((string \<times> string) list, 'w) io" where
  "get_conversation_context env sid max_messages =
     bnd (invoke (GetSessionMessages sid max_messages)
            (get_session_messages env sid max_messages)) (\<lambda>messages.
       ret (map (\<lambda>msg. (row_role msg, row_content msg)) messages))"

text \<open>
  The prompt with context. The sources build it in the same way in \<^verbatim>\<open>execute_agent\<close>
  and in both streaming generators.
\<close>

definition full_prompt :: "string \<Rightarrow> (string \<times> string) list \<Rightarrow> string" where
  "full_prompt msg context =
     (if context \<noteq> [] then
        (let context_str =
               join nl (map (\<lambda>(r, c). r @ '': '' @ c) (slice_from context (- 6)))
         in ''Previous conversation:'' @ nl @ context_str @ nl @ nl
              @ ''Current question: '' @ msg)
      else msg)"

definition save_conversation_turn ::
  "'w env \<Rightarrow> string \<Rightarrow> string \<Rightarrow> string \<Rightarrow> dict option \<Rightarrow> (unit, 'w) io" where
  "save_conversation_turn env sid user_message assistant_message md =
     (let m = (case md of None \<Rightarrow> [] | Some d \<Rightarrow> d)
      in bnd (invoke (AddMessage sid ''user'' user_message m)
                (add_message env sid ''user'' user_message m)) (\<lambda>_.
           invoke (AddMessage sid ''assistant'' assistant_message m)
             (add_message env sid ''assistant'' assistant_message m)))"

definition execute_agent ::
  "'w env \<Rightarrow> string \<Rightarrow> string \<Rightarrow> string option \<Rightarrow> bool \<Rightarrow> (string \<times> ToolCall list, 'w) io" where
  "execute_agent env msg sid uid save_conversation =
     try_except
       (bnd (get_conversation_context env sid 10) (\<lambda>context.
        let prompt = full_prompt msg context in
        bnd (invoke (AgentRun prompt sid uid) (agent_run env prompt sid uid)) (\<lambda>result.
        let response = result_data result;
            tools_used = extract_tool_calls (json_loads env) result
        in bnd (if save_conversation then
                  save_conversation_turn env sid msg response
                    (Some [(''user_id'', opt_str uid),
                           (''tool_calls'', JInt (int (length tools_used)))])
                else ret ()) (\<lambda>_.
             ret (response, tools_used)))))
       (\<lambda>e.
        bnd (emit (LogError (''Agent execution failed: '' @ str_exn env e))) (\<lambda>_.
        let error_response =
              ''I encountered an error while processing your request: '' @ str_exn env e
        in bnd (if save_conversation then
                  save_conversation_turn env sid msg error_response
                    (Some [(''error'', JStr (str_exn env e))])
                else ret ()) (\<lambda>_.
             ret (error_response, []))))"

section \<open>The streaming generators\<close>

text \<open>
  The loop over the events of one model-request node in \<^verbatim>\<open>generate_stream\<close>: a text part
  start and a text delta are yielded as a \<^verbatim>\<open>text\<close> event and appended to
  \<^verbatim>\<open>full_response\<close>.
\<close>

fun stream_events :: "stream_event list \<Rightarrow> string \<Rightarrow> (string, 'w) io" where
  "stream_events [] full_response = ret full_response"
| "stream_events (PartStartEvent kind content # events) full_response =
     (if kind = ''text'' then
        bnd (emit (Yield (TextEvent content))) (\<lambda>_.
          stream_events events (full_response @ content))
      else stream_events events full_response)"
| "stream_events (PartDeltaEvent (TextPartDelta content_delta) # events) full_response =
     bnd (emit (Yield (TextEvent content_delta))) (\<lambda>_.
       stream_events events (full_response @ content_delta))"
| "stream_events (PartDeltaEvent OtherDelta # events) full_response =
     stream_events events full_response"
| "stream_events (OtherEvent # events) full_response =
     stream_events events full_response"

fun stream_nodes :: "node list \<Rightarrow> string \<Rightarrow> (string, 'w) io" where
  "stream_nodes [] full_response = ret full_response"
| "stream_nodes (ModelRequestNode events # nodes) full_response =
     bnd (stream_events events full_response) (\<lambda>full_response.
       stream_nodes nodes full_response)"
| "stream_nodes (OtherNode # nodes) full_response = stream_nodes nodes full_response"

text \<open>
  The \<^verbatim>\<open>async with rag_agent.iter(...)\<close> block: the nodes are streamed, and the exception
  of the iteration, if any, is raised after them.
\<close>

definition iterate_agent ::
  "'w env \<Rightarrow> (node list \<Rightarrow> string \<Rightarrow> (string, 'w) io) \<Rightarrow> string \<Rightarrow> string \<Rightarrow> string option
     \<Rightarrow> (string \<times> agent_result, 'w) io" where
  "iterate_agent env loop prompt sid uid =
     bnd (\<lambda>s. case agent_iter env prompt sid uid (fst s) of
                (it, w1) \<Rightarrow>
                  (Inr it, (w1, snd s @ [Call (AgentIter prompt sid uid) (iter_failure it)])))
       (\<lambda>it.
     bnd (loop (iter_nodes it) []) (\<lambda>full_response.
       case iter_failure it of
         Some e \<Rightarrow> raise e
       | None \<Rightarrow> ret (full_response, iter_result it)))"

definition generate_stream :: "'w env \<Rightarrow> ChatRequest \<Rightarrow> string \<Rightarrow> (unit, 'w) io" where
  "generate_stream env request sid =
     try_except
       (bnd (emit (Yield (SessionEvent sid))) (\<lambda>_.
        bnd (get_conversation_context env sid 10) (\<lambda>context.
        let prompt = full_prompt (message request) context in
        bnd (invoke (AddMessage sid ''user'' (message request)
                       [(''user_id'', opt_str (user_id request))])
               (add_message env sid ''user'' (message request)
                  [(''user_id'', opt_str (user_id request))])) (\<lambda>_.
        bnd (iterate_agent env stream_nodes prompt sid (user_id request))
          (\<lambda>(full_response, result).
        let tools_used = extract_tool_calls (json_loads env) result in
        bnd (if tools_used \<noteq> [] then emit (Yield (ToolsEvent tools_used)) else ret ()) (\<lambda>_.
        bnd (invoke (AddMessage sid ''assistant'' full_response
                       [(''streamed'', JBool True),
                        (''tool_calls'', JInt (int (length tools_used)))])
               (add_message env sid ''assistant'' full_response
                  [(''streamed'', JBool True),
                   (''tool_calls'', JInt (int (length tools_used)))])) (\<lambda>_.
        emit (Yield EndEvent))))))))
       (\<lambda>e.
        bnd (emit (LogError (''Stream error: '' @ str_exn env e))) (\<lambda>_.
        emit (Yield (ErrorEvent (''Stream error: '' @ str_exn env e)))))"

text \<open>The chunk objects of \<^verbatim>\<open>generate_openai_stream\<close>.\<close>

definition stream_chunk ::
  "string \<Rightarrow> int \<Rightarrow> string \<Rightarrow> string option \<Rightarrow> string option \<Rightarrow> OpenAIChatResponse" where
  "stream_chunk response_id timestamp model content reason =
     \<lparr>resp_id = response_id, resp_object = ''chat.completion.chunk'',
      resp_created = timestamp, resp_model = model,
      resp_choices =
        [\<lparr>choice_index = 0, choice_message = None, choice_delta = Some content,
          finish_reason = reason\<rparr>],
      resp_usage = None\<rparr>"

text \<open>
  The loop over the events of one node in \<^verbatim>\<open>generate_openai_stream\<close>: only non-empty
  content is sent.
\<close>

fun openai_stream_events ::
  "(string \<Rightarrow> OpenAIChatResponse) \<Rightarrow> stream_event list \<Rightarrow> string \<Rightarrow> (string, 'w) io" where
  "openai_stream_events chunk [] full_response = ret full_response"
| "openai_stream_events chunk (event # events) full_response =
     (let content =
            (case event of
               PartStartEvent kind c \<Rightarrow> if kind = ''text'' then c else []
             | PartDeltaEvent (TextPartDelta c) \<Rightarrow> c
             | _ \<Rightarrow> [])
      in if content \<noteq> [] then
           bnd (emit (Yield (Chunk (chunk content)))) (\<lambda>_.
             openai_stream_events chunk events (full_response @ content))
         else openai_stream_events chunk events full_response)"

fun openai_stream_nodes ::
  "(string \<Rightarrow> OpenAIChatResponse) \<Rightarrow> node list \<Rightarrow> string \<Rightarrow> (string, 'w) io" where
  "openai_stream_nodes chunk [] full_response = ret full_response"
| "openai_stream_nodes chunk (ModelRequestNode events # nodes) full_response =
     bnd (openai_stream_events chunk events full_response) (\<lambda>full_response.
       openai_stream_nodes chunk nodes full_response)"
| "openai_stream_nodes chunk (OtherNode # nodes) full_response =
     openai_stream_nodes chunk nodes full_response"

definition generate_openai_stream ::
  "'w env \<Rightarrow> OpenAIChatRequest \<Rightarrow> string \<Rightarrow> string \<Rightarrow> string option \<Rightarrow> (unit, 'w) io" where
  "generate_openai_stream env request sid user_message uid =
     try_except
       (bnd (effect (uuid4_hex env)) (\<lambda>u.
        bnd (effect (time_time env)) (\<lambda>timestamp.
        let response_id = ''chatcmpl-'' @ take 8 u in
        bnd (get_conversation_context env sid 10) (\<lambda>context.
        let prompt = full_prompt user_message context in
        bnd (invoke (AddMessage sid ''user'' user_message [(''user_id'', opt_str uid)])
               (add_message env sid ''user'' user_message [(''user_id'', opt_str uid)])) (\<lambda>_.
        bnd (iterate_agent env
               (openai_stream_nodes
                  (\<lambda>content. stream_chunk response_id timestamp (req_model request)
                                (Some content) None))
               prompt sid uid)
          (\<lambda>(full_response, result).
        bnd (invoke (AddMessage sid ''assistant'' full_response [(''streamed'', JBool True)])
               (add_message env sid ''assistant'' full_response [(''streamed'', JBool True)]))
          (\<lambda>_.
        bnd (emit (Yield (Chunk (stream_chunk response_id timestamp (req_model request)
                                   None (Some ''stop''))))) (\<lambda>_.
        emit (Yield Done)))))))))
       (\<lambda>e.
        bnd (emit (LogError (''OpenAI streaming error: '' @ str_exn env e))) (\<lambda>_.
        bnd (effect (uuid4_hex env)) (\<lambda>u.
        bnd (effect (time_time env)) (\<lambda>t.
        bnd (emit (Yield (Chunk (stream_chunk (''chatcmpl-'' @ take 8 u) t (req_model request)
                                   (Some (''Error: '' @ str_exn env e)) (Some ''stop''))))) (\<lambda>_.
        emit (Yield Done))))))"

section \<open>The endpoints\<close>

text \<open>
  An endpoint returns a body, or a \<^verbatim>\<open>StreamingResponse\<close> around a generator that the
  framework runs after the endpoint has returned. An endpoint that raises
  \<^verbatim>\<open>HTTPException(status_code, detail)\<close> is answered with that status.
\<close>

datatype ('a, 'w) response =
    Body 'a
  | StreamingResponse "'w \<times> action list \<Rightarrow> (exn + unit) \<times> 'w \<times> action list"

text \<open>
  The fixed texts of \<^verbatim>\<open>chat_completions\<close>. Its last handler passes the session id to
  \<^verbatim>\<open>create_openai_response\<close> when one is bound and \<^verbatim>\<open>error-session\<close> otherwise; the
  argument is not used, and the embedding passes the latter.
\<close>

definition cooldown_message :: string where
  "cooldown_message =
     ''I'' @ [CHR 0x27] @ ''m currently experiencing high demand and cannot process your request. ''
     @ ''Please try again in a few minutes, or contact the administrator about API quota limits.''"

definition technical_difficulties :: string where
  "technical_difficulties = ''I'' @ [CHR 0x27] @ ''m experiencing technical difficulties: ''"

definition chat_completions ::
  "'w env \<Rightarrow> OpenAIChatRequest \<Rightarrow> ((OpenAIChatResponse, 'w) response, 'w) io" where
  "chat_completions env request =
     try_except
       (case convert_openai_to_internal request of
          Inl e \<Rightarrow> raise e
        | Inr (user_message, uid) \<Rightarrow>
            let internal_request =
                  \<lparr>message = user_message, session_id = None, user_id = uid,
                   metadata = [(''openai_format'', JBool True),
                               (''model'', JStr (req_model request))],
                   search_type = ''hybrid''\<rparr>
            in
            bnd (get_or_create_session env internal_request) (\<lambda>sid.
            bnd (invoke (GetSession sid) (get_session env sid)) (\<lambda>session_check.
            bnd (if \<not> truthy session_check then
                   emit (LogError (''Session '' @ sid
                                     @ '' was not found in database after creation!''))
                 else ret ()) (\<lambda>_.
            if \<not> req_stream request then
              bnd (try_except (execute_agent env user_message sid uid True)
                     (\<lambda>agent_error.
                        bnd (emit (LogError (''Agent execution failed: ''
                                               @ str_exn env agent_error))) (\<lambda>_.
                          ret (technical_difficulties @ str_exn env agent_error, []))))
                (\<lambda>(response, tools_used).
              bnd (create_openai_response env response sid (req_model request) False)
                (\<lambda>openai_response.
              ret (Body openai_response)))
            else
              ret (StreamingResponse
                     (generate_openai_stream env request sid user_message uid))))))
       (\<lambda>e.
        bnd (emit (LogError (''Chat completions endpoint failed: '' @ str_exn env e))) (\<lambda>_.
        let error_message = str_exn env e in
        if contains ''insufficient_quota'' error_message \<or> contains ''429'' error_message then
          bnd (create_openai_response env cooldown_message ''error-session''
                 (req_model request) False) (\<lambda>r.
            ret (Body r))
        else raise (HTTPException 500 (str_exn env e))))"

definition chat :: "'w env \<Rightarrow> ChatRequest \<Rightarrow> (ChatResponse, 'w) io" where
  "chat env request =
     try_except
       (bnd (get_or_create_session env request) (\<lambda>sid.
        bnd (execute_agent env (message request) sid (user_id request) True)
          (\<lambda>(response, tools_used).
        ret \<lparr>resp_message = response, resp_session_id = sid, resp_tools_used = tools_used,
             resp_metadata = [(''search_type'', JStr (search_type request))]\<rparr>)))
       (\<lambda>e.
        bnd (emit (LogError (''Chat endpoint failed: '' @ str_exn env e))) (\<lambda>_.
        raise (HTTPException 500 (str_exn env e))))"

definition chat_stream :: "'w env \<Rightarrow> ChatRequest \<Rightarrow> ((unit, 'w) response, 'w) io" where
  "chat_stream env request =
     try_except
       (bnd (get_or_create_session env request) (\<lambda>sid.
        ret (StreamingResponse (generate_stream env request sid))))
       (\<lambda>e.
        bnd (emit (LogError (''Streaming chat failed: '' @ str_exn env e))) (\<lambda>_.
        raise (HTTPException 500 (str_exn env e))))"

text \<open>
  A whole request as the framework serves it: the endpoint runs, and the generator of a
  streaming response is run to its end. The value is the body, if there is one.
\<close>

definition serve :: "(('a, 'w) response, 'w) io \<Rightarrow> ('a option, 'w) io" where
  "serve endpoint =
     bnd endpoint (\<lambda>r.
       case r of
         Body b \<Rightarrow> ret (Some b)
       | StreamingResponse g \<Rightarrow> bnd g (\<lambda>_. ret None))"

definition status_code :: "exn + 'a \<Rightarrow> nat" where
  "status_code r =
     (case r of
        Inr b \<Rightarrow> 200
      | Inl (HTTPException status detail) \<Rightarrow> status
      | Inl (Exception m) \<Rightarrow> 500)"

section \<open>Fusion of retrieval results\<close>

text \<open>
  The retrieval tools are imported from \<^verbatim>\<open>tools\<close>, which is not among the sources. The
  fuser below follows the design document's algorithm for the component it calls
  RetrievalFuser. Scores are rational numbers.
\<close>

datatype source = Vector | Graph

record RetrievalHit =
  hit_source :: source
  hit_identifier :: string
  score :: rat
  snippet :: string
  provenance :: string

record FusedEntry =
  dedup_key :: string
  fused_source :: source
  combined_score :: rat
  confidence :: rat
  fused_snippet :: string
  fused_provenance :: string

text \<open>
  Modelled from the spec: normalisation of the scores of one source (step 1), min-max
  per source, a single hit fixed at 1. The document does not say what several hits of
  one score become; they are given 1 as the single hit is.
\<close>

definition normalize_scores :: "RetrievalHit list \<Rightarrow> (RetrievalHit \<times> rat) list" where
  "normalize_scores hits =
     (case hits of
        [] \<Rightarrow> []
      | h # rest \<Rightarrow>
          let lo = fold min (map score rest) (score h);
              hi = fold max (map score rest) (score h)
          in map (\<lambda>x. (x, if hi = lo then 1 else (score x - lo) / (hi - lo))) hits)"

text \<open>
  Modelled from the spec: deduplication by identifier inside one source. The document
  names the identifier as the dedup key and does not say which of two hits of one
  source with the same identifier is kept; the first is.
\<close>

fun first_per_identifier :: "(RetrievalHit \<times> rat) list \<Rightarrow> (RetrievalHit \<times> rat) list" where
  "first_per_identifier [] = []"
| "first_per_identifier (x # xs) =
     x # filter (\<lambda>y. hit_identifier (fst y) \<noteq> hit_identifier (fst x)) (first_per_identifier xs)"

text \<open>
  Modelled from the spec: an entry for an identifier of one source keeps that source's
  normalised score (step 2); an entry for an identifier of both sources has the weighted
  sum as its score, the vector hit's snippet, the graph hit's provenance and the sum of
  the two confidences (step 3). It counts as a graph entry in the tie-break.
\<close>

definition single_entry :: "RetrievalHit \<Rightarrow> rat \<Rightarrow> FusedEntry" where
  "single_entry h n =
     \<lparr>dedup_key = hit_identifier h, fused_source = hit_source h, combined_score = n,
      confidence = score h, fused_snippet = snippet h, fused_provenance = provenance h\<rparr>"

definition merged_entry :: "rat \<Rightarrow> rat \<Rightarrow> RetrievalHit \<Rightarrow> rat \<Rightarrow> RetrievalHit \<Rightarrow> rat \<Rightarrow> FusedEntry" where
  "merged_entry w_v w_g v nv g ng =
     \<lparr>dedup_key = hit_identifier v, fused_source = Graph,
      combined_score = w_v * nv + w_g * ng,
      confidence = score v + score g, fused_snippet = snippet v,
      fused_provenance = provenance g\<rparr>"

text \<open>Modelled from the spec: the sort key of step 4, graph before vector.\<close>

definition source_rank :: "source \<Rightarrow> nat" where
  "source_rank s = (case s of Graph \<Rightarrow> 0 | Vector \<Rightarrow> 1)"

definition rank_key :: "FusedEntry \<Rightarrow> rat \<times> nat \<times> string" where
  "rank_key e = (- combined_score e, source_rank (fused_source e), dedup_key e)"

text \<open>
  Modelled from the spec: the RetrievalFuser (steps 1 to 5) with the weights, the hits
  of the two sources and the limit.
\<close>

definition RetrievalFuser ::
  "rat \<Rightarrow> rat \<Rightarrow> RetrievalHit list \<Rightarrow> RetrievalHit list \<Rightarrow> nat \<Rightarrow> FusedEntry list" where
  "RetrievalFuser w_v w_g vector_hits graph_hits limit =
     (let vs = first_per_identifier (normalize_scores vector_hits);
          gs = first_per_identifier (normalize_scores graph_hits);
          from_vector =
            map (\<lambda>(v, nv).
                   case find (\<lambda>(g, ng). hit_identifier g = hit_identifier v) gs of
                     Some (g, ng) \<Rightarrow> merged_entry w_v w_g v nv g ng
                   | None \<Rightarrow> single_entry v nv) vs;
          graph_only =
            map (\<lambda>(g, ng). single_entry g ng)
              (filter (\<lambda>(g, ng). hit_identifier g \<notin> set (map (\<lambda>(v, nv). hit_identifier v) vs)) gs)
      in take limit (sort_key rank_key (from_vector @ graph_only)))"

text \<open>The order the document asks of the output, written out.\<close>

definition ranks_before :: "FusedEntry \<Rightarrow> FusedEntry \<Rightarrow> bool" where
  "ranks_before a b =
     (combined_score b < combined_score a \<or>
      combined_score a = combined_score b \<and>
        (source_rank (fused_source a) < source_rank (fused_source b) \<or>
         source_rank (fused_source a) = source_rank (fused_source b) \<and>
           dedup_key a \<le> dedup_key b))"


section \<open>Vocabulary of the statements\<close>

text \<open>The actions of a run, what it yielded, and whether a collaborator call raised.\<close>

definition actions :: "(exn + 'a) \<times> 'w state \<Rightarrow> action list" where
  "actions r = snd (snd r)"

fun yields :: "action list \<Rightarrow> wire list" where
  "yields [] = []"
| "yields (Yield e # t) = e # yields t"
| "yields (a # t) = yields t"

fun failed :: "action \<Rightarrow> bool" where
  "failed (Call c (Some e)) = True"
| "failed a = False"

fun first_failure :: "action list \<Rightarrow> exn option" where
  "first_failure [] = None"
| "first_failure (Call c (Some e) # t) = Some e"
| "first_failure (a # t) = first_failure t"

text \<open>The store writes of a run (\<^verbatim>\<open>add_message\<close>), and the prompts given to the agent.\<close>

fun writes :: "action list \<Rightarrow> call list" where
  "writes [] = []"
| "writes (Call (AddMessage sid role content md) r # t) =
     AddMessage sid role content md # writes t"
| "writes (a # t) = writes t"

fun prompts :: "action list \<Rightarrow> string list" where
  "prompts [] = []"
| "prompts (Call (AgentRun prompt sid uid) r # t) = prompt # prompts t"
| "prompts (Call (AgentIter prompt sid uid) r # t) = prompt # prompts t"
| "prompts (a # t) = prompts t"

text \<open>The collaborator calls of a run, and the session a call is about.\<close>

fun calls :: "action list \<Rightarrow> call list" where
  "calls [] = []"
| "calls (Call c r # t) = c # calls t"
| "calls (a # t) = calls t"

fun call_session :: "call \<Rightarrow> string option" where
  "call_session (CreateSession uid md) = None"
| "call_session (GetSession sid) = Some sid"
| "call_session (AddMessage sid role content md) = Some sid"
| "call_session (GetSessionMessages sid limit) = Some sid"
| "call_session (AgentRun prompt sid uid) = Some sid"
| "call_session (AgentIter prompt sid uid) = Some sid"

fun is_create :: "call \<Rightarrow> bool" where
  "is_create (CreateSession uid md) = True"
| "is_create c = False"

text \<open>The terminal events of the native stream, and the text a stream carries.\<close>

fun is_terminal :: "wire \<Rightarrow> bool" where
  "is_terminal EndEvent = True"
| "is_terminal (ErrorEvent content) = True"
| "is_terminal e = False"

fun text_deltas :: "wire list \<Rightarrow> string list" where
  "text_deltas [] = []"
| "text_deltas (TextEvent content # es) = content # text_deltas es"
| "text_deltas (Chunk c # es) =
     (case resp_choices c of
        [choice] \<Rightarrow>
          (case choice_delta choice of
             Some (Some content) \<Rightarrow> content # text_deltas es
           | _ \<Rightarrow> text_deltas es)
      | _ \<Rightarrow> text_deltas es)"
| "text_deltas (e # es) = text_deltas es"

text \<open>The text fragments of the events of an iteration, in order.\<close>

fun event_text :: "stream_event \<Rightarrow> string option" where
  "event_text (PartStartEvent kind content) = (if kind = ''text'' then Some content else None)"
| "event_text (PartDeltaEvent (TextPartDelta content_delta)) = Some content_delta"
| "event_text e = None"

fun node_texts :: "node list \<Rightarrow> string list" where
  "node_texts [] = []"
| "node_texts (ModelRequestNode events # nodes) =
     List.map_filter event_text events @ node_texts nodes"
| "node_texts (OtherNode # nodes) = node_texts nodes"






text \<open>
  The prompt as the design document words it: the header, the turns as
  \<^verbatim>\<open>role: content\<close> lines, and the question under its label.
\<close>

definition spec_prompt :: "string \<Rightarrow> (string \<times> string) list \<Rightarrow> string" where
  "spec_prompt question turns =
     ''Previous conversation:'' @ nl
     @ join nl (map (\<lambda>(role, content). role @ '': '' @ content) turns)
     @ nl @ nl @ ''Current question: '' @ question"

text \<open>The text \<^verbatim>\<open>execute_agent\<close> puts before the error when it substitutes the answer.\<close>

definition failure_text :: string where
  "failure_text = ''I encountered an error while processing your request: ''"

text \<open>What a run did after its first error log.\<close>

fun after_log :: "action list \<Rightarrow> action list" where
  "after_log [] = []"
| "after_log (LogError s # t) = t"
| "after_log (a # t) = after_log t"

section \<open>Stub collaborators\<close>

text \<open>
  A small world for concrete runs: the rows of one conversation, and the number of
  coming store writes that fail. The store appends, the agent's outcomes are given, and
  \<^verbatim>\<open>str()\<close> of an \<^verbatim>\<open>HTTPException\<close> is \<^verbatim>\<open>status: detail\<close>.
\<close>

record world =
  w_rows :: "stored_message list"
  w_failing_writes :: nat

definition digit :: "nat \<Rightarrow> char" where
  "digit n = ''0123456789'' ! n"

fun str_nat :: "nat \<Rightarrow> string" where
  "str_nat n =
     (if n < 10 then [digit n]
      else str_nat (n div 10) @ [digit (n mod 10)])"

definition stub_json_loads :: "string \<Rightarrow> json option" where
  "stub_json_loads s =
     (if s = ''{}'' then Some (JObj [])
      else if s = ''{\"query\": \"x\"}'' then Some (JObj [(''query'', JStr ''x'')])
      else None)"

definition stub_env :: "(exn + agent_result) \<Rightarrow> agent_iteration \<Rightarrow> world env" where
  "stub_env run_outcome iteration =
     \<lparr>create_session = (\<lambda>uid md w. (Inr ''s1'', w)),
      get_session = (\<lambda>sid w. (Inr (Some [(''id'', JStr sid)]), w)),
      add_message =
        (\<lambda>sid role content md w.
           if 0 < w_failing_writes w then
             (Inl (Exception ''db down''), w\<lparr>w_failing_writes := w_failing_writes w - 1\<rparr>)
           else
             (Inr (),
              w\<lparr>w_rows := w_rows w
                   @ [\<lparr>row_role = role, row_content = content, row_rest = md\<rparr>]\<rparr>)),
      get_session_messages =
        (\<lambda>sid limit w. (Inr (drop (length (w_rows w) - nat limit) (w_rows w)), w)),
      agent_run = (\<lambda>prompt sid uid w. (run_outcome, w)),
      agent_iter = (\<lambda>prompt sid uid w. (iteration, w)),
      json_loads = stub_json_loads,
      uuid4_hex = (\<lambda>w. (''0123456789abcdef0123456789abcdef'', w)),
      time_time = (\<lambda>w. (1700000000, w)),
      http_exception_str = (\<lambda>status detail. str_nat status @ '': '' @ detail)\<rparr>"


definition run_with_parts :: "string \<Rightarrow> part list \<Rightarrow> agent_result" where
  "run_with_parts answer ps = \<lparr>result_data = answer, result_all_messages = Inr [Some ps]\<rparr>"

definition row :: "string \<Rightarrow> string \<Rightarrow> stored_message" where
  "row r c = \<lparr>row_role = r, row_content = c, row_rest = []\<rparr>"

definition empty_world :: world where
  "empty_world = \<lparr>w_rows = [], w_failing_writes = 0\<rparr>"

text \<open>An agent that answers \<^verbatim>\<open>ANSWER\<close>, in two fragments when it is iterated.\<close>

definition stub_iteration :: agent_iteration where
  "stub_iteration =
     \<lparr>iter_nodes =
        [OtherNode,
         ModelRequestNode
           [PartStartEvent ''text'' ''AN'', OtherEvent, PartDeltaEvent (TextPartDelta ''SWER'')]],
      iter_failure = None,
      iter_result = run_with_parts ''ANSWER'' []\<rparr>"

definition answering_env :: "world env" where
  "answering_env = stub_env (Inr (run_with_parts ''ANSWER'' [])) stub_iteration"

text \<open>A native request and a compatibility request with the question \<^verbatim>\<open>hi\<close>.\<close>

definition hi_request :: ChatRequest where
  "hi_request = \<lparr>message = ''hi'', session_id = None, user_id = None, metadata = [],
                  search_type = ''hybrid''\<rparr>"

definition hi_openai_request :: OpenAIChatRequest where
  "hi_openai_request =
     \<lparr>req_model = ''gpt-4o-mini'',
      req_messages = [\<lparr>msg_role = ''system'', msg_content = ''be brief''\<rparr>,
                      \<lparr>msg_role = ''user'', msg_content = ''hi''\<rparr>],
      req_stream = False, req_user = None\<rparr>"

text \<open>
  A conversation of four turns in the stub store, and a store whose next write fails.
\<close>

definition long_history :: "stored_message list" where
  "long_history =
     [row ''user'' ''q1'', row ''assistant'' ''a1'', row ''user'' ''q2'', row ''assistant'' ''a2'',
      row ''user'' ''q3'', row ''assistant'' ''a3'', row ''user'' ''q4'', row ''assistant'' ''a4'']"

definition long_world :: world where
  "long_world = \<lparr>w_rows = long_history, w_failing_writes = 0\<rparr>"

definition failing_world :: world where
  "failing_world = \<lparr>w_rows = [], w_failing_writes = 1\<rparr>"

text \<open>
  A compatibility request with no user message, and an agent whose run fails with a
  quota error of the upstream service.
\<close>

definition system_only_request :: OpenAIChatRequest where
  "system_only_request =
     \<lparr>req_model = ''gpt-4o-mini'',
      req_messages = [\<lparr>msg_role = ''system'', msg_content = ''be brief''\<rparr>],
      req_stream = False, req_user = None\<rparr>"

definition quota_env :: "world env" where
  "quota_env = stub_env (Inl (Exception ''Error code: 429 - insufficient_quota'')) stub_iteration"

text \<open>Hits of the two sources for concrete fusions.\<close>

definition vhit :: "string \<Rightarrow> rat \<Rightarrow> RetrievalHit" where
  "vhit i s = \<lparr>hit_source = Vector, hit_identifier = i, score = s,
               snippet = ''passage '' @ i, provenance = ''doc '' @ i\<rparr>"

definition ghit :: "string \<Rightarrow> rat \<Rightarrow> RetrievalHit" where
  "ghit i s = \<lparr>hit_source = Graph, hit_identifier = i, score = s,
               snippet = ''fact '' @ i, provenance = ''entity '' @ i\<rparr>"


section \<open>Runs of the handlers, case by case\<close>

text \<open>What the vocabulary makes of appended traces and of streamed text.\<close>

lemma yields_append [simp]: "yields (a @ b) = yields a @ yields b"
  by (induction a rule: yields.induct) auto

lemma yields_text [simp]: "yields (map (\<lambda>c. Yield (TextEvent c)) ts) = map TextEvent ts"
  by (induction ts) auto

lemma failed_text [simp]: "list_ex failed (map (\<lambda>c. Yield (TextEvent c)) ts) = False"
  by (induction ts) auto

lemma terminal_text [simp]: "filter is_terminal (map TextEvent ts) = []"
  by (induction ts) auto

lemma writes_append [simp]: "writes (a @ b) = writes a @ writes b"
  by (induction a rule: writes.induct) auto

lemma writes_text [simp]: "writes (map (\<lambda>c. Yield (f c)) ts) = []"
  by (induction ts) auto

lemma prompts_append [simp]: "prompts (a @ b) = prompts a @ prompts b"
  by (induction a rule: prompts.induct) auto

lemma prompts_yields [simp]: "prompts (map (\<lambda>c. Yield (f c)) ts) = []"
  by (induction ts) auto

lemma calls_append [simp]: "calls (a @ b) = calls a @ calls b"
  by (induction a rule: calls.induct) auto

lemma calls_yields [simp]: "calls (map (\<lambda>c. Yield (f c)) ts) = []"
  by (induction ts) auto

lemma text_deltas_append [simp]: "text_deltas (a @ b) = text_deltas a @ text_deltas b"
  by (induction a rule: text_deltas.induct) (auto split: list.splits option.splits)

lemma text_deltas_text [simp]: "text_deltas (map TextEvent ts) = ts"
  by (induction ts) auto

lemma text_deltas_chunks [simp]:
  "text_deltas (map (\<lambda>c. Chunk (stream_chunk i ts m (Some c) r)) cs) = cs"
  by (induction cs) (auto simp: stream_chunk_def)

lemma yields_chunks [simp]: "yields (map (\<lambda>c. Yield (f c)) ts) = map f ts"
  by (induction ts) auto

lemma failed_yields [simp]: "list_ex failed (map (\<lambda>c. Yield (f c)) ts) = False"
  by (induction ts) auto

lemma first_failure_append [simp]:
  "first_failure (a @ b) =
     (case first_failure a of Some e \<Rightarrow> Some e | None \<Rightarrow> first_failure b)"
  by (induction a rule: first_failure.induct) auto

lemma first_failure_yields [simp]: "first_failure (map (\<lambda>c. Yield (f c)) ts) = None"
  by (induction ts) auto

text \<open>The streaming loops never raise: they yield the text fragments and collect them.\<close>

lemma stream_events_run:
  "stream_events events full_response (w, t) =
     (Inr (full_response @ concat (List.map_filter event_text events)),
      (w, t @ map (\<lambda>c. Yield (TextEvent c)) (List.map_filter event_text events)))"
  by (induction events full_response arbitrary: t rule: stream_events.induct)
     (auto simp: ret_def bnd_def emit_def List.map_filter_simps)

lemma stream_nodes_run:
  "stream_nodes nodes full_response (w, t) =
     (Inr (full_response @ concat (node_texts nodes)),
      (w, t @ map (\<lambda>c. Yield (TextEvent c)) (node_texts nodes)))"
  by (induction nodes full_response arbitrary: t rule: stream_nodes.induct)
     (auto simp: ret_def bnd_def stream_events_run)

text \<open>Evaluation of the primitive computations.\<close>

lemma if_emit_run:
  "(if c then emit a else ret ()) (w, t) = (Inr (), (w, t @ (if c then [a] else [])))"
  by (simp add: emit_def ret_def)

lemma ret_app: "ret x s = (Inr x, s)"
  by (simp add: ret_def)

lemma raise_app: "raise e s = (Inl e, s)"
  by (simp add: raise_def)

lemma bnd_app:
  "bnd m f s = (case m s of (Inl e, s1) \<Rightarrow> (Inl e, s1) | (Inr x, s1) \<Rightarrow> f x s1)"
  by (simp add: bnd_def)

lemma try_except_app:
  "try_except m h s = (case m s of (Inr x, s1) \<Rightarrow> (Inr x, s1) | (Inl e, s1) \<Rightarrow> h e s1)"
  by (simp add: try_except_def)

lemma emit_app: "emit a s = (Inr (), (fst s, snd s @ [a]))"
  by (simp add: emit_def)

lemma invoke_app:
  "invoke c f s =
     (case f (fst s) of
        (r, w1) \<Rightarrow>
          (r, (w1, snd s @ [Call c (case r of Inl e \<Rightarrow> Some e | Inr x \<Rightarrow> None)])))"
  by (simp add: invoke_def)

lemma effect_app: "effect f s = (case f (fst s) of (x, w1) \<Rightarrow> (Inr x, (w1, snd s)))"
  by (simp add: effect_def)

text \<open>
  The computations are unfolded where they are applied to a state, so that a continuation
  is evaluated only when it is reached.
\<close>

lemmas io_defs = Let_def run_def ret_app raise_app bnd_app try_except_app emit_app invoke_app
  effect_app

text \<open>
  The five ways a run of \<^verbatim>\<open>generate_stream\<close> can go, by the outcomes of the collaborators,
  each with its whole trace.
\<close>

lemma generate_stream_cases:
  fixes env :: "'w env" and request :: ChatRequest and sid :: string and w :: 'w
  defines "umd \<equiv> [(''user_id'', opt_str (user_id request))]"
  obtains
    (context_fails) e w1 where
      "get_session_messages env sid 10 w = (Inl e, w1)"
      "run (generate_stream env request sid) w =
         (Inr (), (w1, [Yield (SessionEvent sid), Call (GetSessionMessages sid 10) (Some e),
                        LogError (''Stream error: '' @ str_exn env e),
                        Yield (ErrorEvent (''Stream error: '' @ str_exn env e))]))"
  | (user_write_fails) rows w1 e w2 where
      "get_session_messages env sid 10 w = (Inr rows, w1)"
      "add_message env sid ''user'' (message request) umd w1 = (Inl e, w2)"
      "run (generate_stream env request sid) w =
         (Inr (), (w2, [Yield (SessionEvent sid), Call (GetSessionMessages sid 10) None,
                        Call (AddMessage sid ''user'' (message request) umd) (Some e),
                        LogError (''Stream error: '' @ str_exn env e),
                        Yield (ErrorEvent (''Stream error: '' @ str_exn env e))]))"
  | (iteration_fails) rows w1 w2 it w3 e prompt where
      "get_session_messages env sid 10 w = (Inr rows, w1)"
      "add_message env sid ''user'' (message request) umd w1 = (Inr (), w2)"
      "prompt = full_prompt (message request) (map (\<lambda>m. (row_role m, row_content m)) rows)"
      "agent_iter env prompt sid (user_id request) w2 = (it, w3)"
      "iter_failure it = Some e"
      "run (generate_stream env request sid) w =
         (Inr (), (w3, [Yield (SessionEvent sid), Call (GetSessionMessages sid 10) None,
                        Call (AddMessage sid ''user'' (message request) umd) None,
                        Call (AgentIter prompt sid (user_id request)) (Some e)]
                       @ map (\<lambda>c. Yield (TextEvent c)) (node_texts (iter_nodes it))
                       @ [LogError (''Stream error: '' @ str_exn env e),
                          Yield (ErrorEvent (''Stream error: '' @ str_exn env e))]))"
  | (assistant_write_fails) rows w1 w2 it w3 e w4 prompt tools amd where
      "get_session_messages env sid 10 w = (Inr rows, w1)"
      "add_message env sid ''user'' (message request) umd w1 = (Inr (), w2)"
      "prompt = full_prompt (message request) (map (\<lambda>m. (row_role m, row_content m)) rows)"
      "agent_iter env prompt sid (user_id request) w2 = (it, w3)"
      "iter_failure it = None"
      "tools = extract_tool_calls (json_loads env) (iter_result it)"
      "amd = [(''streamed'', JBool True), (''tool_calls'', JInt (int (length tools)))]"
      "add_message env sid ''assistant'' (concat (node_texts (iter_nodes it))) amd w3 = (Inl e, w4)"
      "run (generate_stream env request sid) w =
         (Inr (), (w4, [Yield (SessionEvent sid), Call (GetSessionMessages sid 10) None,
                        Call (AddMessage sid ''user'' (message request) umd) None,
                        Call (AgentIter prompt sid (user_id request)) None]
                       @ map (\<lambda>c. Yield (TextEvent c)) (node_texts (iter_nodes it))
                       @ (if tools \<noteq> [] then [Yield (ToolsEvent tools)] else [])
                       @ [Call (AddMessage sid ''assistant'' (concat (node_texts (iter_nodes it))) amd)
                            (Some e),
                          LogError (''Stream error: '' @ str_exn env e),
                          Yield (ErrorEvent (''Stream error: '' @ str_exn env e))]))"
  | (ends) rows w1 w2 it w3 w4 prompt tools amd where
      "get_session_messages env sid 10 w = (Inr rows, w1)"
      "add_message env sid ''user'' (message request) umd w1 = (Inr (), w2)"
      "prompt = full_prompt (message request) (map (\<lambda>m. (row_role m, row_content m)) rows)"
      "agent_iter env prompt sid (user_id request) w2 = (it, w3)"
      "iter_failure it = None"
      "tools = extract_tool_calls (json_loads env) (iter_result it)"
      "amd = [(''streamed'', JBool True), (''tool_calls'', JInt (int (length tools)))]"
      "add_message env sid ''assistant'' (concat (node_texts (iter_nodes it))) amd w3 = (Inr (), w4)"
      "run (generate_stream env request sid) w =
         (Inr (), (w4, [Yield (SessionEvent sid), Call (GetSessionMessages sid 10) None,
                        Call (AddMessage sid ''user'' (message request) umd) None,
                        Call (AgentIter prompt sid (user_id request)) None]
                       @ map (\<lambda>c. Yield (TextEvent c)) (node_texts (iter_nodes it))
                       @ (if tools \<noteq> [] then [Yield (ToolsEvent tools)] else [])
                       @ [Call (AddMessage sid ''assistant'' (concat (node_texts (iter_nodes it))) amd)
                            None,
                          Yield EndEvent]))"
proof -
  obtain r1 w1 where c1: "get_session_messages env sid 10 w = (r1, w1)"
    by (cases "get_session_messages env sid 10 w")
  show thesis
  proof (cases r1)
    case (Inl e)
    with c1 show thesis
      by (intro context_fails [of e w1])
         (simp_all add: generate_stream_def get_conversation_context_def io_defs)
  next
    case r1: (Inr rows)
    let ?prompt = "full_prompt (message request) (map (\<lambda>m. (row_role m, row_content m)) rows)"
    obtain r2 w2 where c2: "add_message env sid ''user'' (message request) umd w1 = (r2, w2)"
      by (cases "add_message env sid ''user'' (message request) umd w1")
    show thesis
    proof (cases r2)
      case (Inl e)
      with c1 r1 c2 show thesis
        by (intro user_write_fails [of rows w1 e w2])
           (simp_all add: generate_stream_def get_conversation_context_def io_defs umd_def)
    next
      case r2: (Inr u)
      obtain it w3 where c3: "agent_iter env ?prompt sid (user_id request) w2 = (it, w3)"
        by (cases "agent_iter env ?prompt sid (user_id request) w2")
      show thesis
      proof (cases "iter_failure it")
        case (Some e)
        with c1 r1 c2 r2 c3 show thesis
          by (intro iteration_fails [of rows w1 w2 ?prompt it w3 e])
             (simp_all add: generate_stream_def get_conversation_context_def iterate_agent_def
                stream_nodes_run io_defs umd_def)
      next
        case None
        let ?tools = "extract_tool_calls (json_loads env) (iter_result it)"
        let ?amd = "[(''streamed'', JBool True), (''tool_calls'', JInt (int (length ?tools)))]"
        obtain r4 w4 where
          c4: "add_message env sid ''assistant'' (concat (node_texts (iter_nodes it))) ?amd w3 = (r4, w4)"
          by (cases "add_message env sid ''assistant'' (concat (node_texts (iter_nodes it))) ?amd w3")
        show thesis
        proof (cases r4)
          case (Inl e)
          with c1 r1 c2 r2 c3 None c4 show thesis
            by (intro assistant_write_fails [of rows w1 w2 ?prompt it w3 ?tools ?amd e w4])
               (simp_all add: generate_stream_def get_conversation_context_def iterate_agent_def
                  stream_nodes_run if_emit_run io_defs umd_def
                  split del: if_split)
        next
          case (Inr u4)
          with c1 r1 c2 r2 c3 None c4 show thesis
            by (intro ends [of rows w1 w2 ?prompt it w3 ?tools ?amd w4])
               (simp_all add: generate_stream_def get_conversation_context_def iterate_agent_def
                  stream_nodes_run if_emit_run io_defs umd_def
                  split del: if_split)
        qed
      qed
    qed
  qed
qed

text \<open>The three ways of saving a turn.\<close>

lemma save_conversation_turn_cases:
  fixes env :: "'w env" and w :: 'w and md :: "dict option"
  defines "m \<equiv> (case md of None \<Rightarrow> [] | Some d \<Rightarrow> d)"
  obtains
    (first_write_fails) e w1 where
      "add_message env sid ''user'' um m w = (Inl e, w1)"
      "save_conversation_turn env sid um am md (w, t) =
         (Inl e, (w1, t @ [Call (AddMessage sid ''user'' um m) (Some e)]))"
  | (second_write_fails) w1 e w2 where
      "add_message env sid ''user'' um m w = (Inr (), w1)"
      "add_message env sid ''assistant'' am m w1 = (Inl e, w2)"
      "save_conversation_turn env sid um am md (w, t) =
         (Inl e, (w2, t @ [Call (AddMessage sid ''user'' um m) None,
                           Call (AddMessage sid ''assistant'' am m) (Some e)]))"
  | (saved) w1 w2 where
      "add_message env sid ''user'' um m w = (Inr (), w1)"
      "add_message env sid ''assistant'' am m w1 = (Inr (), w2)"
      "save_conversation_turn env sid um am md (w, t) =
         (Inr (), (w2, t @ [Call (AddMessage sid ''user'' um m) None,
                            Call (AddMessage sid ''assistant'' am m) None]))"
proof -
  obtain r1 w1 where c1: "add_message env sid ''user'' um m w = (r1, w1)"
    by (cases "add_message env sid ''user'' um m w")
  show thesis
  proof (cases r1)
    case (Inl e)
    with c1 show thesis
      by (intro first_write_fails [of e w1])
         (simp_all add: save_conversation_turn_def io_defs m_def)
  next
    case r1: (Inr u)
    obtain r2 w2 where c2: "add_message env sid ''assistant'' am m w1 = (r2, w2)"
      by (cases "add_message env sid ''assistant'' am m w1")
    show thesis
    proof (cases r2)
      case (Inl e)
      with c1 r1 c2 show thesis
        by (intro second_write_fails [of w1 e w2])
           (simp_all add: save_conversation_turn_def io_defs m_def)
    next
      case (Inr u2)
      with c1 r1 c2 show thesis
        by (intro saved [of w1 w2])
           (simp_all add: save_conversation_turn_def io_defs m_def)
    qed
  qed
qed

text \<open>
  The ways a run of \<^verbatim>\<open>execute_agent\<close> with persistence can go. The \<^verbatim>\<open>try\<close> block fails at
  one of four calls, and the handler then saves the turn with the substitute answer; or
  the agent's answer is saved and returned.
\<close>

lemma execute_agent_cases:
  fixes env :: "'w env" and w :: 'w and sid :: string and msg :: string
  defines "recover \<equiv> (\<lambda>e s.
     bnd (save_conversation_turn env sid msg (failure_text @ str_exn env e)
            (Some [(''error'', JStr (str_exn env e))]))
       (\<lambda>_. ret (failure_text @ str_exn env e, [])) s)"
  obtains
    (context_fails) e w1 where
      "get_session_messages env sid 10 w = (Inl e, w1)"
      "execute_agent env msg sid uid True (w, t) =
         recover e (w1, t @ [Call (GetSessionMessages sid 10) (Some e),
                             LogError (''Agent execution failed: '' @ str_exn env e)])"
  | (agent_fails) rows w1 prompt e w2 where
      "get_session_messages env sid 10 w = (Inr rows, w1)"
      "prompt = full_prompt msg (map (\<lambda>m. (row_role m, row_content m)) rows)"
      "agent_run env prompt sid uid w1 = (Inl e, w2)"
      "execute_agent env msg sid uid True (w, t) =
         recover e (w2, t @ [Call (GetSessionMessages sid 10) None,
                             Call (AgentRun prompt sid uid) (Some e),
                             LogError (''Agent execution failed: '' @ str_exn env e)])"
  | (user_write_fails) rows w1 prompt result w2 tools md e w3 where
      "get_session_messages env sid 10 w = (Inr rows, w1)"
      "prompt = full_prompt msg (map (\<lambda>m. (row_role m, row_content m)) rows)"
      "agent_run env prompt sid uid w1 = (Inr result, w2)"
      "tools = extract_tool_calls (json_loads env) result"
      "md = [(''user_id'', opt_str uid), (''tool_calls'', JInt (int (length tools)))]"
      "add_message env sid ''user'' msg md w2 = (Inl e, w3)"
      "execute_agent env msg sid uid True (w, t) =
         recover e (w3, t @ [Call (GetSessionMessages sid 10) None,
                             Call (AgentRun prompt sid uid) None,
                             Call (AddMessage sid ''user'' msg md) (Some e),
                             LogError (''Agent execution failed: '' @ str_exn env e)])"
  | (assistant_write_fails) rows w1 prompt result w2 tools md w3 e w4 where
      "get_session_messages env sid 10 w = (Inr rows, w1)"
      "prompt = full_prompt msg (map (\<lambda>m. (row_role m, row_content m)) rows)"
      "agent_run env prompt sid uid w1 = (Inr result, w2)"
      "tools = extract_tool_calls (json_loads env) result"
      "md = [(''user_id'', opt_str uid), (''tool_calls'', JInt (int (length tools)))]"
      "add_message env sid ''user'' msg md w2 = (Inr (), w3)"
      "add_message env sid ''assistant'' (result_data result) md w3 = (Inl e, w4)"
      "execute_agent env msg sid uid True (w, t) =
         recover e (w4, t @ [Call (GetSessionMessages sid 10) None,
                             Call (AgentRun prompt sid uid) None,
                             Call (AddMessage sid ''user'' msg md) None,
                             Call (AddMessage sid ''assistant'' (result_data result) md) (Some e),
                             LogError (''Agent execution failed: '' @ str_exn env e)])"
  | (answered) rows w1 prompt result w2 tools md w3 w4 where
      "get_session_messages env sid 10 w = (Inr rows, w1)"
      "prompt = full_prompt msg (map (\<lambda>m. (row_role m, row_content m)) rows)"
      "agent_run env prompt sid uid w1 = (Inr result, w2)"
      "tools = extract_tool_calls (json_loads env) result"
      "md = [(''user_id'', opt_str uid), (''tool_calls'', JInt (int (length tools)))]"
      "add_message env sid ''user'' msg md w2 = (Inr (), w3)"
      "add_message env sid ''assistant'' (result_data result) md w3 = (Inr (), w4)"
      "execute_agent env msg sid uid True (w, t) =
         (Inr (result_data result, tools),
          (w4, t @ [Call (GetSessionMessages sid 10) None,
                    Call (AgentRun prompt sid uid) None,
                    Call (AddMessage sid ''user'' msg md) None,
                    Call (AddMessage sid ''assistant'' (result_data result) md) None]))"
proof -
  note defs = execute_agent_def get_conversation_context_def save_conversation_turn_def
    io_defs recover_def failure_text_def
  obtain r1 w1 where c1: "get_session_messages env sid 10 w = (r1, w1)"
    by (cases "get_session_messages env sid 10 w")
  show thesis
  proof (cases r1)
    case (Inl e)
    with c1 show thesis
      by (intro context_fails [of e w1]) (simp_all add: defs)
  next
    case r1: (Inr rows)
    let ?prompt = "full_prompt msg (map (\<lambda>m. (row_role m, row_content m)) rows)"
    obtain r2 w2 where c2: "agent_run env ?prompt sid uid w1 = (r2, w2)"
      by (cases "agent_run env ?prompt sid uid w1")
    show thesis
    proof (cases r2)
      case (Inl e)
      with c1 r1 c2 show thesis
        by (intro agent_fails [of rows w1 ?prompt e w2]) (simp_all add: defs)
    next
      case r2: (Inr result)
      let ?tools = "extract_tool_calls (json_loads env) result"
      let ?md = "[(''user_id'', opt_str uid), (''tool_calls'', JInt (int (length ?tools)))]"
      obtain r3 w3 where c3: "add_message env sid ''user'' msg ?md w2 = (r3, w3)"
        by (cases "add_message env sid ''user'' msg ?md w2")
      show thesis
      proof (cases r3)
        case (Inl e)
        with c1 r1 c2 r2 c3 show thesis
          by (intro user_write_fails [of rows w1 ?prompt result w2 ?tools ?md e w3])
             (simp_all add: defs)
      next
        case r3: (Inr u)
        obtain r4 w4 where
          c4: "add_message env sid ''assistant'' (result_data result) ?md w3 = (r4, w4)"
          by (cases "add_message env sid ''assistant'' (result_data result) ?md w3")
        show thesis
        proof (cases r4)
          case (Inl e)
          with c1 r1 c2 r2 c3 r3 c4 show thesis
            by (intro assistant_write_fails [of rows w1 ?prompt result w2 ?tools ?md w3 e w4])
               (simp_all add: defs)
        next
          case (Inr u4)
          with c1 r1 c2 r2 c3 r3 c4 show thesis
            by (intro answered [of rows w1 ?prompt result w2 ?tools ?md w3 w4])
               (simp_all add: defs)
        qed
      qed
    qed
  qed
qed

text \<open>
  The loops of the compatibility stream send the non-empty fragments as chunks and collect
  all of them.
\<close>

lemma concat_nonempty [simp]: "concat (filter (\<lambda>c. c \<noteq> []) ts) = concat ts"
  by (induction ts) auto

lemma openai_stream_events_run:
  "openai_stream_events chunk events full_response (w, t) =
     (Inr (full_response @ concat (List.map_filter event_text events)),
      (w, t @ map (\<lambda>c. Yield (Chunk (chunk c)))
                (filter (\<lambda>c. c \<noteq> []) (List.map_filter event_text events))))"
proof (induction events arbitrary: full_response t)
  case Nil
  then show ?case by (simp add: ret_def List.map_filter_simps)
next
  case (Cons event events)
  show ?case
  proof (cases event)
    case (PartStartEvent kind c)
    then show ?thesis
      using Cons by (simp add: Let_def bnd_def emit_def List.map_filter_simps)
  next
    case (PartDeltaEvent d)
    then show ?thesis
      using Cons by (cases d) (simp_all add: Let_def bnd_def emit_def List.map_filter_simps)
  next
    case OtherEvent
    then show ?thesis
      using Cons by (simp add: Let_def List.map_filter_simps)
  qed
qed

lemma openai_stream_nodes_run:
  "openai_stream_nodes chunk nodes full_response (w, t) =
     (Inr (full_response @ concat (node_texts nodes)),
      (w, t @ map (\<lambda>c. Yield (Chunk (chunk c))) (filter (\<lambda>c. c \<noteq> []) (node_texts nodes))))"
  by (induction nodes arbitrary: full_response t rule: node_texts.induct)
     (simp_all add: ret_def bnd_def openai_stream_events_run)

text \<open>
  The five ways a run of \<^verbatim>\<open>generate_openai_stream\<close> can go, from any state. The identifier
  and the time stamp of the chunks are read first; the handler reads them again.
\<close>

lemma generate_openai_stream_cases:
  fixes env :: "'w env" and w :: 'w and request :: OpenAIChatRequest
    and sid :: string and um :: string and uid :: "string option"
  defines "wb \<equiv> snd (time_time env (snd (uuid4_hex env w)))"
    and "chunk \<equiv> stream_chunk (''chatcmpl-'' @ take 8 (fst (uuid4_hex env w)))
                   (fst (time_time env (snd (uuid4_hex env w)))) (req_model request)"
    and "umd \<equiv> [(''user_id'', opt_str uid)]"
    and "amd \<equiv> [(''streamed'', JBool True)]"
    and "after_error \<equiv> (\<lambda>wk. snd (time_time env (snd (uuid4_hex env wk))))"
    and "error_events \<equiv> (\<lambda>e wk.
          [LogError (''OpenAI streaming error: '' @ str_exn env e),
           Yield (Chunk (stream_chunk (''chatcmpl-'' @ take 8 (fst (uuid4_hex env wk)))
                           (fst (time_time env (snd (uuid4_hex env wk)))) (req_model request)
                           (Some (''Error: '' @ str_exn env e)) (Some ''stop''))),
           Yield Done])"
  obtains
    (context_fails) e w1 where
      "get_session_messages env sid 10 wb = (Inl e, w1)"
      "generate_openai_stream env request sid um uid (w, t) =
         (Inr (), (after_error w1,
                   t @ [Call (GetSessionMessages sid 10) (Some e)] @ error_events e w1))"
  | (user_write_fails) rows w1 e w2 where
      "get_session_messages env sid 10 wb = (Inr rows, w1)"
      "add_message env sid ''user'' um umd w1 = (Inl e, w2)"
      "generate_openai_stream env request sid um uid (w, t) =
         (Inr (), (after_error w2,
                   t @ [Call (GetSessionMessages sid 10) None,
                        Call (AddMessage sid ''user'' um umd) (Some e)] @ error_events e w2))"
  | (iteration_fails) rows w1 w2 it w3 e prompt where
      "get_session_messages env sid 10 wb = (Inr rows, w1)"
      "add_message env sid ''user'' um umd w1 = (Inr (), w2)"
      "prompt = full_prompt um (map (\<lambda>m. (row_role m, row_content m)) rows)"
      "agent_iter env prompt sid uid w2 = (it, w3)"
      "iter_failure it = Some e"
      "generate_openai_stream env request sid um uid (w, t) =
         (Inr (), (after_error w3,
                   t @ [Call (GetSessionMessages sid 10) None,
                        Call (AddMessage sid ''user'' um umd) None,
                        Call (AgentIter prompt sid uid) (Some e)]
                     @ map (\<lambda>c. Yield (Chunk (chunk (Some c) None)))
                         (filter (\<lambda>c. c \<noteq> []) (node_texts (iter_nodes it)))
                     @ error_events e w3))"
  | (assistant_write_fails) rows w1 w2 it w3 e w4 prompt where
      "get_session_messages env sid 10 wb = (Inr rows, w1)"
      "add_message env sid ''user'' um umd w1 = (Inr (), w2)"
      "prompt = full_prompt um (map (\<lambda>m. (row_role m, row_content m)) rows)"
      "agent_iter env prompt sid uid w2 = (it, w3)"
      "iter_failure it = None"
      "add_message env sid ''assistant'' (concat (node_texts (iter_nodes it))) amd w3 = (Inl e, w4)"
      "generate_openai_stream env request sid um uid (w, t) =
         (Inr (), (after_error w4,
                   t @ [Call (GetSessionMessages sid 10) None,
                        Call (AddMessage sid ''user'' um umd) None,
                        Call (AgentIter prompt sid uid) None]
                     @ map (\<lambda>c. Yield (Chunk (chunk (Some c) None)))
                         (filter (\<lambda>c. c \<noteq> []) (node_texts (iter_nodes it)))
                     @ [Call (AddMessage sid ''assistant'' (concat (node_texts (iter_nodes it))) amd)
                          (Some e)]
                     @ error_events e w4))"
  | (stops) rows w1 w2 it w3 w4 prompt where
      "get_session_messages env sid 10 wb = (Inr rows, w1)"
      "add_message env sid ''user'' um umd w1 = (Inr (), w2)"
      "prompt = full_prompt um (map (\<lambda>m. (row_role m, row_content m)) rows)"
      "agent_iter env prompt sid uid w2 = (it, w3)"
      "iter_failure it = None"
      "add_message env sid ''assistant'' (concat (node_texts (iter_nodes it))) amd w3 = (Inr (), w4)"
      "generate_openai_stream env request sid um uid (w, t) =
         (Inr (), (w4,
                   t @ [Call (GetSessionMessages sid 10) None,
                        Call (AddMessage sid ''user'' um umd) None,
                        Call (AgentIter prompt sid uid) None]
                     @ map (\<lambda>c. Yield (Chunk (chunk (Some c) None)))
                         (filter (\<lambda>c. c \<noteq> []) (node_texts (iter_nodes it)))
                     @ [Call (AddMessage sid ''assistant'' (concat (node_texts (iter_nodes it))) amd)
                          None,
                        Yield (Chunk (chunk None (Some ''stop''))),
                        Yield Done]))"
proof -
  note defs = generate_openai_stream_def get_conversation_context_def iterate_agent_def
    openai_stream_nodes_run io_defs case_prod_unfold wb_def chunk_def umd_def amd_def
    after_error_def error_events_def
  obtain r1 w1 where c1: "get_session_messages env sid 10 wb = (r1, w1)"
    by (cases "get_session_messages env sid 10 wb")
  show thesis
  proof (cases r1)
    case (Inl e)
    with c1 show thesis
      by (intro context_fails [of e w1]) (simp_all add: defs)
  next
    case r1: (Inr rows)
    let ?prompt = "full_prompt um (map (\<lambda>m. (row_role m, row_content m)) rows)"
    obtain r2 w2 where c2: "add_message env sid ''user'' um umd w1 = (r2, w2)"
      by (cases "add_message env sid ''user'' um umd w1")
    show thesis
    proof (cases r2)
      case (Inl e)
      with c1 r1 c2 show thesis
        by (intro user_write_fails [of rows w1 e w2]) (simp_all add: defs)
    next
      case r2: (Inr u)
      obtain it w3 where c3: "agent_iter env ?prompt sid uid w2 = (it, w3)"
        by (cases "agent_iter env ?prompt sid uid w2")
      show thesis
      proof (cases "iter_failure it")
        case (Some e)
        with c1 r1 c2 r2 c3 show thesis
          by (intro iteration_fails [of rows w1 w2 ?prompt it w3 e]) (simp_all add: defs)
      next
        case None
        obtain r4 w4 where
          c4: "add_message env sid ''assistant'' (concat (node_texts (iter_nodes it))) amd w3 = (r4, w4)"
          by (cases "add_message env sid ''assistant'' (concat (node_texts (iter_nodes it))) amd w3")
        show thesis
        proof (cases r4)
          case (Inl e)
          with c1 r1 c2 r2 c3 None c4 show thesis
            by (intro assistant_write_fails [of rows w1 w2 ?prompt it w3 e w4])
               (simp_all add: defs)
        next
          case (Inr u4)
          with c1 r1 c2 r2 c3 None c4 show thesis
            by (intro stops [of rows w1 w2 ?prompt it w3 w4]) (simp_all add: defs)
        qed
      qed
    qed
  qed
qed

text \<open>A run of \<^verbatim>\<open>execute_agent\<close> in which no call raised is the run that answers.\<close>

lemma execute_agent_ok:
  assumes "\<not> list_ex failed (actions (run (execute_agent env msg sid uid True) w))"
  obtains rows w1 prompt result w2 tools md w3 w4 where
      "get_session_messages env sid 10 w = (Inr rows, w1)"
      "prompt = full_prompt msg (map (\<lambda>m. (row_role m, row_content m)) rows)"
      "agent_run env prompt sid uid w1 = (Inr result, w2)"
      "tools = extract_tool_calls (json_loads env) result"
      "md = [(''user_id'', opt_str uid), (''tool_calls'', JInt (int (length tools)))]"
      "add_message env sid ''user'' msg md w2 = (Inr (), w3)"
      "add_message env sid ''assistant'' (result_data result) md w3 = (Inr (), w4)"
      "run (execute_agent env msg sid uid True) w =
         (Inr (result_data result, tools),
          (w4, [Call (GetSessionMessages sid 10) None,
                Call (AgentRun prompt sid uid) None,
                Call (AddMessage sid ''user'' msg md) None,
                Call (AddMessage sid ''assistant'' (result_data result) md) None]))"
proof (cases rule: execute_agent_cases [of env sid w msg uid "[]"])
  case (context_fails e w1)
  with assms show ?thesis
    by (cases rule: save_conversation_turn_cases
          [of env sid msg "Some [(''error'', JStr (str_exn env e))]" w1
              "failure_text @ str_exn env e"
              "[Call (GetSessionMessages sid 10) (Some e),
                LogError (''Agent execution failed: '' @ str_exn env e)]"])
       (simp_all add: actions_def io_defs)
next
  case (agent_fails rows w1 prompt e w2)
  with assms show ?thesis
    by (cases rule: save_conversation_turn_cases
          [of env sid msg "Some [(''error'', JStr (str_exn env e))]" w2
              "failure_text @ str_exn env e"
              "[Call (GetSessionMessages sid 10) None,
                Call (AgentRun prompt sid uid) (Some e),
                LogError (''Agent execution failed: '' @ str_exn env e)]"])
       (simp_all add: actions_def io_defs)
next
  case (user_write_fails rows w1 prompt result w2 tools md e w3)
  with assms show ?thesis
    by (cases rule: save_conversation_turn_cases
          [of env sid msg "Some [(''error'', JStr (str_exn env e))]" w3
              "failure_text @ str_exn env e"
              "[Call (GetSessionMessages sid 10) None,
                Call (AgentRun prompt sid uid) None,
                Call (AddMessage sid ''user'' msg md) (Some e),
                LogError (''Agent execution failed: '' @ str_exn env e)]"])
       (simp_all add: actions_def io_defs)
next
  case (assistant_write_fails rows w1 prompt result w2 tools md w3 e w4)
  with assms show ?thesis
    by (cases rule: save_conversation_turn_cases
          [of env sid msg "Some [(''error'', JStr (str_exn env e))]" w4
              "failure_text @ str_exn env e"
              "[Call (GetSessionMessages sid 10) None,
                Call (AgentRun prompt sid uid) None,
                Call (AddMessage sid ''user'' msg md) None,
                Call (AddMessage sid ''assistant'' (result_data result) md) (Some e),
                LogError (''Agent execution failed: '' @ str_exn env e)]"])
       (simp_all add: actions_def io_defs)
next
  case (answered rows w1 prompt result w2 tools md w3 w4)
  then show ?thesis
    by (intro that [of rows w1 prompt result w2 tools md w3 w4]) (simp_all add: run_def)
qed

text \<open>Evaluation of the stub collaborators.\<close>

declare str_nat.simps [simp del]

lemma str_nat_400 [simp]: "str_nat 400 = ''400''"
  by (simp add: str_nat.simps [of 400] str_nat.simps [of 40] str_nat.simps [of 4] digit_def)

lemmas stub_defs = answering_env_def stub_env_def stub_iteration_def run_with_parts_def
  empty_world_def extract_tool_calls_def opt_str_def full_prompt_def

lemmas handler_defs = execute_agent_def get_conversation_context_def save_conversation_turn_def
  generate_stream_def generate_openai_stream_def iterate_agent_def io_defs




section \<open>Tool-call tracking\<close>









section \<open>The native stream\<close>

text \<open>
  C1. Every run of the generator of the native-format endpoint returns normally and
  yields exactly one terminal event, which is the last event it yields; that event is
  \<^verbatim>\<open>end\<close> exactly when no collaborator call of the run raised, and \<^verbatim>\<open>error\<close> otherwise.
\<close>

theorem generate_stream_one_terminal:
  "fst (run (generate_stream env request sid) w) = Inr () \<and>
   yields (actions (run (generate_stream env request sid) w)) \<noteq> [] \<and>
   is_terminal (last (yields (actions (run (generate_stream env request sid) w)))) \<and>
   length (filter is_terminal (yields (actions (run (generate_stream env request sid) w)))) = 1 \<and>
   (last (yields (actions (run (generate_stream env request sid) w))) = EndEvent) =
     (\<not> list_ex failed (actions (run (generate_stream env request sid) w)))"
  by (cases rule: generate_stream_cases [of env sid w request]) (simp_all add: actions_def)


section \<open>Persistence of a turn\<close>

text \<open>
  C2. In a run with persistence in which no collaborator call raised, exactly two
  messages are written to the store, the user's message and then the assistant's, and
  both are written before the run is over: \<^verbatim>\<open>execute_agent\<close> returns the answer it
  stored after the two writes, the native generator writes both before the \<^verbatim>\<open>end\<close> event,
  which is its last action, and the compatibility generator before its final chunk and
  the \<^verbatim>\<open>[DONE]\<close> record. The streamed assistant message is the concatenation of the text
  sent before it.
\<close>

theorem successful_run_persists_two_messages:
  "(\<not> list_ex failed (actions (run (execute_agent env msg sid uid True) w)) \<longrightarrow>
      (\<exists>response tools md.
         fst (run (execute_agent env msg sid uid True) w) = Inr (response, tools) \<and>
         writes (actions (run (execute_agent env msg sid uid True) w)) =
           [AddMessage sid ''user'' msg md, AddMessage sid ''assistant'' response md])) \<and>
   (\<not> list_ex failed (actions (run (generate_stream env request sid) w)) \<longrightarrow>
      (\<exists>before md1 md2.
         actions (run (generate_stream env request sid) w) = before @ [Yield EndEvent] \<and>
         writes before =
           [AddMessage sid ''user'' (message request) md1,
            AddMessage sid ''assistant'' (concat (text_deltas (yields before))) md2])) \<and>
   (\<not> list_ex failed (actions (run (generate_openai_stream env orequest sid msg uid) w)) \<longrightarrow>
      (\<exists>before stop md1 md2.
         actions (run (generate_openai_stream env orequest sid msg uid) w) =
           before @ [Yield (Chunk stop), Yield Done] \<and>
         writes before =
           [AddMessage sid ''user'' msg md1,
            AddMessage sid ''assistant'' (concat (text_deltas (yields before))) md2]))"
proof (intro conjI impI)
  assume "\<not> list_ex failed (actions (run (execute_agent env msg sid uid True) w))"
  then show "\<exists>response tools md.
         fst (run (execute_agent env msg sid uid True) w) = Inr (response, tools) \<and>
         writes (actions (run (execute_agent env msg sid uid True) w)) =
           [AddMessage sid ''user'' msg md, AddMessage sid ''assistant'' response md]"
    by (rule execute_agent_ok) (simp add: actions_def)
next
  assume ok: "\<not> list_ex failed (actions (run (generate_stream env request sid) w))"
  show "\<exists>before md1 md2.
         actions (run (generate_stream env request sid) w) = before @ [Yield EndEvent] \<and>
         writes before =
           [AddMessage sid ''user'' (message request) md1,
            AddMessage sid ''assistant'' (concat (text_deltas (yields before))) md2]"
  proof (cases rule: generate_stream_cases [of env sid w request])
    case (ends rows w1 w2 it w3 w4 prompt tools amd)
    let ?before = "[Yield (SessionEvent sid), Call (GetSessionMessages sid 10) None,
                    Call (AddMessage sid ''user'' (message request)
                            [(''user_id'', opt_str (user_id request))]) None,
                    Call (AgentIter prompt sid (user_id request)) None]
                   @ map (\<lambda>c. Yield (TextEvent c)) (node_texts (iter_nodes it))
                   @ (if tools \<noteq> [] then [Yield (ToolsEvent tools)] else [])
                   @ [Call (AddMessage sid ''assistant'' (concat (node_texts (iter_nodes it))) amd)
                        None]"
    have "actions (run (generate_stream env request sid) w) = ?before @ [Yield EndEvent]"
      using ends by (simp add: actions_def)
    moreover have "writes ?before =
           [AddMessage sid ''user'' (message request) [(''user_id'', opt_str (user_id request))],
            AddMessage sid ''assistant'' (concat (text_deltas (yields ?before))) amd]"
      by simp
    ultimately show ?thesis by blast
  qed (use ok in \<open>simp_all add: actions_def\<close>)
next
  assume ok: "\<not> list_ex failed (actions (run (generate_openai_stream env orequest sid msg uid) w))"
  show "\<exists>before stop md1 md2.
         actions (run (generate_openai_stream env orequest sid msg uid) w) =
           before @ [Yield (Chunk stop), Yield Done] \<and>
         writes before =
           [AddMessage sid ''user'' msg md1,
            AddMessage sid ''assistant'' (concat (text_deltas (yields before))) md2]"
  proof (cases rule: generate_openai_stream_cases
      [where env = env and w = w and request = orequest and sid = sid and um = msg
         and uid = uid and t = "[]"])
    case (stops rows w1 w2 it w3 w4 prompt)
    let ?chunk = "stream_chunk (''chatcmpl-'' @ take 8 (fst (uuid4_hex env w)))
                   (fst (time_time env (snd (uuid4_hex env w)))) (req_model orequest)"
    let ?before = "[Call (GetSessionMessages sid 10) None,
                    Call (AddMessage sid ''user'' msg [(''user_id'', opt_str uid)]) None,
                    Call (AgentIter prompt sid uid) None]
                   @ map (\<lambda>c. Yield (Chunk (?chunk (Some c) None)))
                       (filter (\<lambda>c. c \<noteq> []) (node_texts (iter_nodes it)))
                   @ [Call (AddMessage sid ''assistant'' (concat (node_texts (iter_nodes it)))
                              [(''streamed'', JBool True)]) None]"
    have "actions (run (generate_openai_stream env orequest sid msg uid) w) =
            ?before @ [Yield (Chunk (?chunk None (Some ''stop''))), Yield Done]"
      using stops by (simp add: actions_def run_def)
    moreover have "writes ?before =
           [AddMessage sid ''user'' msg [(''user_id'', opt_str uid)],
            AddMessage sid ''assistant'' (concat (text_deltas (yields ?before)))
              [(''streamed'', JBool True)]]"
      by simp
    ultimately show ?thesis by blast
  qed (use ok in \<open>simp_all add: actions_def run_def\<close>)
qed

text \<open>The three runs with the stub collaborators: no call raises, and two messages are written.\<close>

theorem successful_run_persists_two_messages_witness:
  "\<not> list_ex failed (actions (run (execute_agent answering_env ''hi'' ''s1'' None True) empty_world)) \<and>
   fst (run (execute_agent answering_env ''hi'' ''s1'' None True) empty_world) = Inr (''ANSWER'', []) \<and>
   writes (actions (run (execute_agent answering_env ''hi'' ''s1'' None True) empty_world)) =
     [AddMessage ''s1'' ''user'' ''hi'' [(''user_id'', JNull), (''tool_calls'', JInt 0)],
      AddMessage ''s1'' ''assistant'' ''ANSWER'' [(''user_id'', JNull), (''tool_calls'', JInt 0)]] \<and>
   \<not> list_ex failed (actions (run (generate_stream answering_env hi_request ''s1'') empty_world)) \<and>
   last (actions (run (generate_stream answering_env hi_request ''s1'') empty_world)) = Yield EndEvent \<and>
   writes (actions (run (generate_stream answering_env hi_request ''s1'') empty_world)) =
     [AddMessage ''s1'' ''user'' ''hi'' [(''user_id'', JNull)],
      AddMessage ''s1'' ''assistant'' ''ANSWER'' [(''streamed'', JBool True), (''tool_calls'', JInt 0)]] \<and>
   \<not> list_ex failed
       (actions (run (generate_openai_stream answering_env hi_openai_request ''s1'' ''hi'' None)
                   empty_world)) \<and>
   last (actions (run (generate_openai_stream answering_env hi_openai_request ''s1'' ''hi'' None)
                   empty_world)) = Yield Done \<and>
   writes (actions (run (generate_openai_stream answering_env hi_openai_request ''s1'' ''hi'' None)
                     empty_world)) =
     [AddMessage ''s1'' ''user'' ''hi'' [(''user_id'', JNull)],
      AddMessage ''s1'' ''assistant'' ''ANSWER'' [(''streamed'', JBool True)]]"
  using successful_run_persists_two_messages
    [of answering_env "''hi''" "''s1''" None empty_world hi_request hi_openai_request]
  by (simp add: handler_defs stub_defs actions_def hi_request_def hi_openai_request_def
      List.map_filter_simps)


section \<open>The compatibility endpoint\<close>

text \<open>
  C3. A compatibility request whose messages hold no user message is refused before any
  collaborator is called, so before any session is looked up or created. The status is
  not a client error: the \<^verbatim>\<open>HTTPException\<close> with status 400 that the conversion raises is
  caught by the handler of the endpoint, which answers 500, or 200 with the cooldown text
  should the rendering of the exception contain a quota marker.
\<close>

theorem chat_completions_no_user_message:
  assumes "filter (\<lambda>m. msg_role m = ''user'') (req_messages request) = []"
  shows "calls (actions (run (serve (chat_completions env request)) w)) = [] \<and>
         status_code (fst (run (chat_completions env request) w)) =
           (if contains ''insufficient_quota''
                 (http_exception_str env 400 ''No user message found in request'') \<or>
               contains ''429'' (http_exception_str env 400 ''No user message found in request'')
            then 200 else 500)"
  using assms
  by (simp add: chat_completions_def serve_def convert_openai_to_internal_def
      create_openai_response_def io_defs case_prod_unfold
      str_exn_def actions_def status_code_def)

text \<open>With the stub collaborators the answer is the status 500 and nothing is called.\<close>

lemma chat_completions_no_user_message_stub:
  "run (serve (chat_completions answering_env system_only_request)) empty_world =
     (Inl (HTTPException 500 ''400: No user message found in request''),
      (empty_world,
       [LogError ''Chat completions endpoint failed: 400: No user message found in request'']))"
  by (simp add: chat_completions_def serve_def convert_openai_to_internal_def
      system_only_request_def io_defs str_exn_def stub_defs)

theorem chat_completions_no_user_message_witness:
  "filter (\<lambda>m. msg_role m = ''user'') (req_messages system_only_request) = [] \<and>
   calls (actions (run (serve (chat_completions answering_env system_only_request)) empty_world)) = [] \<and>
   status_code (fst (run (chat_completions answering_env system_only_request) empty_world)) = 500"
proof -
  have none: "filter (\<lambda>m. msg_role m = ''user'') (req_messages system_only_request) = []"
    by (simp add: system_only_request_def)
  have str: "http_exception_str answering_env 400 ''No user message found in request'' =
               ''400: No user message found in request''"
    by (simp add: answering_env_def stub_env_def)
  from chat_completions_no_user_message [OF none, of answering_env empty_world]
  show ?thesis using none by (simp add: str)
qed


section \<open>A quota failure of the upstream service\<close>

text \<open>The steps of the compatibility endpoint with the stub whose agent run raises.\<close>

lemma quota_execute_agent:
  "execute_agent quota_env ''hi'' ''s1'' None True (empty_world, t) =
     (Inr (failure_text @ ''Error code: 429 - insufficient_quota'', []),
      (\<lparr>w_rows =
          [\<lparr>row_role = ''user'', row_content = ''hi'',
            row_rest = [(''error'', JStr ''Error code: 429 - insufficient_quota'')]\<rparr>,
           \<lparr>row_role = ''assistant'',
            row_content = failure_text @ ''Error code: 429 - insufficient_quota'',
            row_rest = [(''error'', JStr ''Error code: 429 - insufficient_quota'')]\<rparr>],
        w_failing_writes = 0\<rparr>,
       t @ [Call (GetSessionMessages ''s1'' 10) None,
            Call (AgentRun ''hi'' ''s1'' None)
              (Some (Exception ''Error code: 429 - insufficient_quota'')),
            LogError ''Agent execution failed: Error code: 429 - insufficient_quota'',
            Call (AddMessage ''s1'' ''user'' ''hi''
                    [(''error'', JStr ''Error code: 429 - insufficient_quota'')]) None,
            Call (AddMessage ''s1'' ''assistant''
                    (failure_text @ ''Error code: 429 - insufficient_quota'')
                    [(''error'', JStr ''Error code: 429 - insufficient_quota'')]) None]))"
  by (simp add: handler_defs quota_env_def stub_env_def empty_world_def full_prompt_def
      str_exn_def failure_text_def)


lemma quota_words:
  "length (py_split (failure_text @ ''Error code: 429 - insufficient_quota'')) = 13"
  by (simp add: py_split_def failure_text_def is_space_def)

lemma quota_response:
  "create_openai_response quota_env (failure_text @ ''Error code: 429 - insufficient_quota'')
     ''s1'' ''gpt-4o-mini'' False (w, t) =
   (Inr \<lparr>resp_id = ''chatcmpl-01234567'', resp_object = ''chat.completion'',
         resp_created = 1700000000, resp_model = ''gpt-4o-mini'',
         resp_choices =
           [\<lparr>choice_index = 0,
             choice_message =
               Some \<lparr>msg_role = ''assistant'',
                     msg_content = failure_text @ ''Error code: 429 - insufficient_quota''\<rparr>,
             choice_delta = None, finish_reason = Some ''stop''\<rparr>],
         resp_usage = Some \<lparr>prompt_tokens = 50, completion_tokens = 16, total_tokens = 66\<rparr>\<rparr>,
    (w, t))"
  by (simp add: create_openai_response_def quota_words io_defs quota_env_def stub_env_def)


lemma quota_session:
  "get_or_create_session quota_env
     \<lparr>message = ''hi'', session_id = None, user_id = None,
      metadata = [(''openai_format'', JBool True), (''model'', JStr ''gpt-4o-mini'')],
      search_type = ''hybrid''\<rparr> (w, t) =
   (Inr ''s1'', (w, t @ [Call (CreateSession None
                [(''openai_format'', JBool True), (''model'', JStr ''gpt-4o-mini'')]) None]))"
  by (simp add: get_or_create_session_def io_defs quota_env_def stub_env_def)

lemma quota_get_session:
  "invoke (GetSession ''s1'') (get_session quota_env ''s1'') (w, t) =
     (Inr (Some [(''id'', JStr ''s1'')]), (w, t @ [Call (GetSession ''s1'') None]))"
  by (simp add: io_defs quota_env_def stub_env_def)

lemma hi_convert: "convert_openai_to_internal hi_openai_request = Inr (''hi'', None)"
  by (simp add: convert_openai_to_internal_def hi_openai_request_def)

text \<open>
  C4. A non-streaming compatibility request whose reasoning call fails with a quota
  error (\<^verbatim>\<open>Error code: 429 - insufficient_quota\<close>) is answered with a body and so with
  success, and the turn is saved as two messages tagged with the error. The content of
  the body is the generic failure text of \<^verbatim>\<open>execute_agent\<close> followed by the error, and it
  does not contain the cooldown text: \<^verbatim>\<open>execute_agent\<close> catches the exception, so the
  handler of the endpoint that looks for the quota markers is never entered.
\<close>

theorem chat_completions_quota_failure:
  "run (serve (chat_completions quota_env hi_openai_request)) empty_world =
     (Inr (Some
        \<lparr>resp_id = ''chatcmpl-01234567'', resp_object = ''chat.completion'',
         resp_created = 1700000000, resp_model = ''gpt-4o-mini'',
         resp_choices =
           [\<lparr>choice_index = 0,
             choice_message =
               Some \<lparr>msg_role = ''assistant'',
                     msg_content = failure_text @ ''Error code: 429 - insufficient_quota''\<rparr>,
             choice_delta = None, finish_reason = Some ''stop''\<rparr>],
         resp_usage = Some \<lparr>prompt_tokens = 50, completion_tokens = 16, total_tokens = 66\<rparr>\<rparr>),
      (\<lparr>w_rows =
          [\<lparr>row_role = ''user'', row_content = ''hi'',
            row_rest = [(''error'', JStr ''Error code: 429 - insufficient_quota'')]\<rparr>,
           \<lparr>row_role = ''assistant'',
            row_content = failure_text @ ''Error code: 429 - insufficient_quota'',
            row_rest = [(''error'', JStr ''Error code: 429 - insufficient_quota'')]\<rparr>],
        w_failing_writes = 0\<rparr>,
       [Call (CreateSession None
                [(''openai_format'', JBool True), (''model'', JStr ''gpt-4o-mini'')]) None,
        Call (GetSession ''s1'') None,
        Call (GetSessionMessages ''s1'' 10) None,
        Call (AgentRun ''hi'' ''s1'' None)
          (Some (Exception ''Error code: 429 - insufficient_quota'')),
        LogError ''Agent execution failed: Error code: 429 - insufficient_quota'',
        Call (AddMessage ''s1'' ''user'' ''hi''
                [(''error'', JStr ''Error code: 429 - insufficient_quota'')]) None,
        Call (AddMessage ''s1'' ''assistant''
                (failure_text @ ''Error code: 429 - insufficient_quota'')
                [(''error'', JStr ''Error code: 429 - insufficient_quota'')]) None])) \<and>
   contains ''429'' ''Error code: 429 - insufficient_quota'' \<and>
   \<not> contains cooldown_message (failure_text @ ''Error code: 429 - insufficient_quota'')"
proof -
  have model: "req_model hi_openai_request = ''gpt-4o-mini''"
    and stream: "\<not> req_stream hi_openai_request"
    by (simp_all add: hi_openai_request_def)
  show ?thesis
    apply (intro conjI)
      apply (simp add: chat_completions_def serve_def hi_convert model stream quota_session
        quota_get_session quota_execute_agent quota_response truthy_def
        run_def bnd_def try_except_def ret_def)
     apply simp
    apply (simp add: cooldown_message_def failure_text_def)
    done
qed


section \<open>A store write that fails after the agent has answered\<close>

text \<open>
  C5, as amended. If a store write fails after the agent has produced an answer in
  non-streaming mode, the failure is logged and the answer is not returned:
  \<^verbatim>\<open>execute_agent\<close> puts the fixed failure text with the error in its place, with no
  tool calls, and saves the turn again, the user's message and the substitute tagged with
  the error; the caller gets the substitute when these two writes succeed, and the
  exception of the write that fails otherwise.
\<close>

theorem execute_agent_write_failure:
  assumes answered: "Call (AgentRun prompt sid uid) None
                       \<in> set (actions (run (execute_agent env msg sid uid True) w))"
    and failure: "first_failure (actions (run (execute_agent env msg sid uid True) w)) = Some e"
  shows "LogError (''Agent execution failed: '' @ str_exn env e)
           \<in> set (actions (run (execute_agent env msg sid uid True) w)) \<and>
         (case fst (run (execute_agent env msg sid uid True) w) of
            Inr (response, tools) \<Rightarrow>
              response = failure_text @ str_exn env e \<and> tools = [] \<and>
              after_log (actions (run (execute_agent env msg sid uid True) w)) =
                [Call (AddMessage sid ''user'' msg [(''error'', JStr (str_exn env e))]) None,
                 Call (AddMessage sid ''assistant'' (failure_text @ str_exn env e)
                         [(''error'', JStr (str_exn env e))]) None]
          | Inl e' \<Rightarrow>
              first_failure (after_log (actions (run (execute_agent env msg sid uid True) w))) =
                Some e' \<and>
              failed (last (actions (run (execute_agent env msg sid uid True) w))))"
proof (cases rule: execute_agent_cases [of env sid w msg uid "[]"])
  case (context_fails e0 w1)
  with answered show ?thesis
    by (cases rule: save_conversation_turn_cases
          [of env sid msg "Some [(''error'', JStr (str_exn env e0))]" w1
              "failure_text @ str_exn env e0"
              "[Call (GetSessionMessages sid 10) (Some e0),
                LogError (''Agent execution failed: '' @ str_exn env e0)]"])
       (simp_all add: actions_def io_defs)
next
  case (agent_fails rows w1 prompt' e0 w2)
  with answered show ?thesis
    by (cases rule: save_conversation_turn_cases
          [of env sid msg "Some [(''error'', JStr (str_exn env e0))]" w2
              "failure_text @ str_exn env e0"
              "[Call (GetSessionMessages sid 10) None,
                Call (AgentRun prompt' sid uid) (Some e0),
                LogError (''Agent execution failed: '' @ str_exn env e0)]"])
       (simp_all add: actions_def io_defs)
next
  case (user_write_fails rows w1 prompt' result w2 tools md e0 w3)
  with failure show ?thesis
    by (cases rule: save_conversation_turn_cases
          [of env sid msg "Some [(''error'', JStr (str_exn env e0))]" w3
              "failure_text @ str_exn env e0"
              "[Call (GetSessionMessages sid 10) None,
                Call (AgentRun prompt' sid uid) None,
                Call (AddMessage sid ''user'' msg md) (Some e0),
                LogError (''Agent execution failed: '' @ str_exn env e0)]"])
       (auto simp add: actions_def io_defs)
next
  case (assistant_write_fails rows w1 prompt' result w2 tools md w3 e0 w4)
  with failure show ?thesis
    by (cases rule: save_conversation_turn_cases
          [of env sid msg "Some [(''error'', JStr (str_exn env e0))]" w4
              "failure_text @ str_exn env e0"
              "[Call (GetSessionMessages sid 10) None,
                Call (AgentRun prompt' sid uid) None,
                Call (AddMessage sid ''user'' msg md) None,
                Call (AddMessage sid ''assistant'' (result_data result) md) (Some e0),
                LogError (''Agent execution failed: '' @ str_exn env e0)]"])
       (auto simp add: actions_def io_defs)
next
  case (answered rows w1 prompt' result w2 tools md w3 w4)
  with failure show ?thesis by (simp add: actions_def run_def)
qed

text \<open>The stub agent answers, the first write fails, and the next two succeed.\<close>

lemma failing_execute_agent:
  "run (execute_agent answering_env ''hi'' ''s1'' None True) failing_world =
     (Inr (failure_text @ ''db down'', []),
      (\<lparr>w_rows = [\<lparr>row_role = ''user'', row_content = ''hi'',
                     row_rest = [(''error'', JStr ''db down'')]\<rparr>,
                   \<lparr>row_role = ''assistant'', row_content = failure_text @ ''db down'',
                     row_rest = [(''error'', JStr ''db down'')]\<rparr>],
        w_failing_writes = 0\<rparr>,
       [Call (GetSessionMessages ''s1'' 10) None,
        Call (AgentRun ''hi'' ''s1'' None) None,
        Call (AddMessage ''s1'' ''user'' ''hi'' [(''user_id'', JNull), (''tool_calls'', JInt 0)])
          (Some (Exception ''db down'')),
        LogError (''Agent execution failed: db down''),
        Call (AddMessage ''s1'' ''user'' ''hi'' [(''error'', JStr ''db down'')]) None,
        Call (AddMessage ''s1'' ''assistant'' (failure_text @ ''db down'')
                [(''error'', JStr ''db down'')]) None]))"
  by (simp add: handler_defs stub_defs failing_world_def str_exn_def failure_text_def)

theorem execute_agent_write_failure_witness:
  "Call (AgentRun ''hi'' ''s1'' None) None
     \<in> set (actions (run (execute_agent answering_env ''hi'' ''s1'' None True) failing_world)) \<and>
   first_failure (actions (run (execute_agent answering_env ''hi'' ''s1'' None True) failing_world)) =
     Some (Exception ''db down'') \<and>
   LogError ''Agent execution failed: db down''
     \<in> set (actions (run (execute_agent answering_env ''hi'' ''s1'' None True) failing_world)) \<and>
   fst (run (execute_agent answering_env ''hi'' ''s1'' None True) failing_world) =
     Inr (failure_text @ ''db down'', [])"
proof -
  have a: "Call (AgentRun ''hi'' ''s1'' None) None
     \<in> set (actions (run (execute_agent answering_env ''hi'' ''s1'' None True) failing_world))"
    by (simp add: failing_execute_agent actions_def)
  have f: "first_failure (actions (run (execute_agent answering_env ''hi'' ''s1'' None True) failing_world)) =
     Some (Exception ''db down'')"
    by (simp add: failing_execute_agent actions_def)
  from execute_agent_write_failure [OF a f] a f show ?thesis
    by (simp add: failing_execute_agent str_exn_def)
qed

text \<open>
  The claim as stated fails: the agent answered \<^verbatim>\<open>ANSWER\<close>, one write failed, and the
  caller does not get that answer.
\<close>

theorem execute_agent_write_failure_counterexample:
  "agent_run answering_env ''hi'' ''s1'' None failing_world =
     (Inr (run_with_parts ''ANSWER'' []), failing_world) \<and>
   result_data (run_with_parts ''ANSWER'' []) = ''ANSWER'' \<and>
   first_failure (actions (run (execute_agent answering_env ''hi'' ''s1'' None True) failing_world)) =
     Some (Exception ''db down'') \<and>
   fst (run (execute_agent answering_env ''hi'' ''s1'' None True) failing_world) \<noteq>
     Inr (''ANSWER'', [])"
  by (simp add: failing_execute_agent actions_def failure_text_def)
     (simp add: stub_defs)


section \<open>The fused results\<close>

text \<open>The entries keep the identifiers of their hits, and one hit is kept for an identifier.\<close>

lemma dedup_key_single [simp]: "dedup_key (single_entry h n) = hit_identifier h"
  by (simp add: single_entry_def)

lemma dedup_key_merged [simp]: "dedup_key (merged_entry w_v w_g v nv g ng) = hit_identifier v"
  by (simp add: merged_entry_def)

lemma first_per_identifier_subset:
  "set (first_per_identifier xs) \<subseteq> set xs"
  by (induction xs) auto

lemma first_per_identifier_distinct:
  "distinct (map (\<lambda>x. hit_identifier (fst x)) (first_per_identifier xs))"
  by (induction xs) (auto simp: distinct_map_filter)

lemma rank_key_before: "rank_key a \<le> rank_key b \<Longrightarrow> ranks_before a b"
  by (auto simp: rank_key_def ranks_before_def less_eq_prod_def)

text \<open>
  C9. For all weights, hits and limits, no two entries of the fuser's output have the
  same dedup key, and the output is sorted by non-increasing combined score, entries of
  one score by source, graph before vector, and then by the order of their identifiers.
\<close>

theorem RetrievalFuser_distinct_sorted:
  "distinct (map dedup_key (RetrievalFuser w_v w_g vector_hits graph_hits limit)) \<and>
   sorted_wrt (\<lambda>a b. combined_score b \<le> combined_score a)
     (RetrievalFuser w_v w_g vector_hits graph_hits limit) \<and>
   sorted_wrt ranks_before (RetrievalFuser w_v w_g vector_hits graph_hits limit)"
proof -
  let ?vs = "first_per_identifier (normalize_scores vector_hits)"
  let ?gs = "first_per_identifier (normalize_scores graph_hits)"
  let ?from_vector =
    "map (\<lambda>(v, nv).
            case find (\<lambda>(g, ng). hit_identifier g = hit_identifier v) ?gs of
              Some (g, ng) \<Rightarrow> merged_entry w_v w_g v nv g ng
            | None \<Rightarrow> single_entry v nv) ?vs"
  let ?graph_only =
    "map (\<lambda>(g, ng). single_entry g ng)
       (filter (\<lambda>(g, ng). hit_identifier g \<notin> set (map (\<lambda>(v, nv). hit_identifier v) ?vs)) ?gs)"
  let ?all = "?from_vector @ ?graph_only"
  have out: "RetrievalFuser w_v w_g vector_hits graph_hits limit =
               take limit (sort_key rank_key ?all)"
    by (simp add: RetrievalFuser_def Let_def)
  have kv: "map dedup_key ?from_vector = map (\<lambda>x. hit_identifier (fst x)) ?vs"
    by (auto split: option.splits prod.splits)
  have kg: "map dedup_key ?graph_only =
              map (\<lambda>x. hit_identifier (fst x))
                (filter (\<lambda>(g, ng). hit_identifier g \<notin> set (map (\<lambda>(v, nv). hit_identifier v) ?vs)) ?gs)"
    by (auto split: prod.splits)
  have dv: "distinct (map dedup_key ?from_vector)"
    unfolding kv by (rule first_per_identifier_distinct)
  have dg: "distinct (map dedup_key ?graph_only)"
    unfolding kg by (rule distinct_map_filter) (rule first_per_identifier_distinct)
  have disj: "set (map dedup_key ?from_vector) \<inter> set (map dedup_key ?graph_only) = {}"
  proof -
    have "False"
      if "k \<in> set (map dedup_key ?from_vector)" and "k \<in> set (map dedup_key ?graph_only)"
      for k
    proof -
      from that(2) have "k \<notin> set (map (\<lambda>x. hit_identifier (fst x)) ?vs)"
        unfolding kg by (auto simp: case_prod_unfold)
      moreover from that(1) have "k \<in> set (map (\<lambda>x. hit_identifier (fst x)) ?vs)"
        unfolding kv by simp
      ultimately show False by simp
    qed
    then show ?thesis by blast
  qed
  have dall: "distinct (map dedup_key ?all)"
    using dv dg disj by simp
  then have "distinct ?all \<and> inj_on dedup_key (set ?all)"
    by (simp only: distinct_map)
  then have "distinct (map dedup_key (sort_key rank_key ?all))"
    by (simp only: distinct_map distinct_sort set_sort) 
  then have d: "distinct (map dedup_key (take limit (sort_key rank_key ?all)))"
    by (simp only: take_map [symmetric] distinct_take)
  have "sorted (map rank_key (sort_key rank_key ?all))"
    by (rule sorted_sort_key)
  then have "sorted_wrt (\<lambda>a b. rank_key a \<le> rank_key b) (sort_key rank_key ?all)"
    by (simp only: sorted_map)
  then have "sorted_wrt (\<lambda>a b. rank_key a \<le> rank_key b) (take limit (sort_key rank_key ?all))"
    by (rule sorted_wrt_take)
  then have s: "sorted_wrt ranks_before (take limit (sort_key rank_key ?all))"
    by (rule sorted_wrt_mono_rel [rotated]) (simp add: rank_key_before)
  then have "sorted_wrt (\<lambda>a b. combined_score b \<le> combined_score a)
               (take limit (sort_key rank_key ?all))"
    by (rule sorted_wrt_mono_rel [rotated]) (auto simp: ranks_before_def)
  with d s show ?thesis unfolding out by blast
qed

text \<open>
  The fusion of the design document: \<^verbatim>\<open>C\<close>, then \<^verbatim>\<open>A\<close> with the weighted score of both
  sources, then \<^verbatim>\<open>B\<close>; and a fusion of hits with repeated identifiers, cut at two.
\<close>

lemma RetrievalFuser_scenario:
  "map (\<lambda>e. (dedup_key e, combined_score e))
     (RetrievalFuser (1 / 2) (1 / 2)
        [vhit ''A'' (9 / 10), vhit ''B'' (4 / 10)]
        [ghit ''A'' (8 / 10), ghit ''C'' (95 / 100)] 10) =
   [(''C'', 1), (''A'', 1 / 2), (''B'', 0)]"
  by code_simp

lemma RetrievalFuser_duplicates:
  "map (\<lambda>e. (dedup_key e, combined_score e))
     (RetrievalFuser (1 / 2) (1 / 2)
        [vhit ''B'' (4 / 10), vhit ''A'' (9 / 10), vhit ''B'' (7 / 10)]
        [ghit ''D'' (3 / 10), ghit ''D'' (3 / 10)] 2) =
   [(''D'', 1), (''A'', 1)]"
  by code_simp


section \<open>The prompt with context\<close>

text \<open>The slice \<^verbatim>\<open>context[-6:]\<close> keeps the last six turns.\<close>

lemma slice_from_last_six: "slice_from xs (- 6) = drop (length xs - 6) xs"
proof -
  have "nat (max 0 (int (length xs) - 6)) = length xs - 6" by simp
  then show ?thesis by (simp add: slice_from_def Let_def)
qed

lemma full_prompt_spec:
  "context \<noteq> [] \<Longrightarrow> full_prompt msg context = spec_prompt msg (drop (length context - 6) context)"
  by (simp add: full_prompt_def spec_prompt_def slice_from_last_six)

text \<open>
  C7, as amended. Whenever the store returns prior messages for the session,
  \<^verbatim>\<open>execute_agent\<close> first asks the assembler for the most recent ten messages, and the
  prompt it gives the agent is exactly the fixed header, the last six of those messages,
  oldest first, each as a \<^verbatim>\<open>role: content\<close> line, and the new question under the fixed
  label.
\<close>

theorem execute_agent_prompt:
  assumes "get_session_messages env sid 10 w = (Inr rows, w1)" and "rows \<noteq> []"
  shows "hd (actions (run (execute_agent env msg sid uid True) w)) =
           Call (GetSessionMessages sid 10) None \<and>
         prompts (actions (run (execute_agent env msg sid uid True) w)) =
           [spec_prompt msg
              (drop (length rows - 6) (map (\<lambda>m. (row_role m, row_content m)) rows))]"
proof -
  have p: "full_prompt msg (map (\<lambda>m. (row_role m, row_content m)) rows) =
           spec_prompt msg (drop (length rows - 6) (map (\<lambda>m. (row_role m, row_content m)) rows))"
    using assms(2) full_prompt_spec [of "map (\<lambda>m. (row_role m, row_content m)) rows" msg]
    by simp
  show ?thesis
  proof (cases rule: execute_agent_cases [of env sid w msg uid "[]"])
    case (context_fails e w1)
    with assms show ?thesis by simp
  next
    case (agent_fails rows' w1' prompt e w2)
    with assms p show ?thesis
      by (cases rule: save_conversation_turn_cases
            [of env sid msg "Some [(''error'', JStr (str_exn env e))]" w2
                "failure_text @ str_exn env e"
                "[Call (GetSessionMessages sid 10) None,
                  Call (AgentRun prompt sid uid) (Some e),
                  LogError (''Agent execution failed: '' @ str_exn env e)]"])
         (simp_all add: actions_def io_defs)
  next
    case (user_write_fails rows' w1' prompt result w2 tools md e w3)
    with assms p show ?thesis
      by (cases rule: save_conversation_turn_cases
            [of env sid msg "Some [(''error'', JStr (str_exn env e))]" w3
                "failure_text @ str_exn env e"
                "[Call (GetSessionMessages sid 10) None,
                  Call (AgentRun prompt sid uid) None,
                  Call (AddMessage sid ''user'' msg md) (Some e),
                  LogError (''Agent execution failed: '' @ str_exn env e)]"])
         (simp_all add: actions_def io_defs)
  next
    case (assistant_write_fails rows' w1' prompt result w2 tools md w3 e w4)
    with assms p show ?thesis
      by (cases rule: save_conversation_turn_cases
            [of env sid msg "Some [(''error'', JStr (str_exn env e))]" w4
                "failure_text @ str_exn env e"
                "[Call (GetSessionMessages sid 10) None,
                  Call (AgentRun prompt sid uid) None,
                  Call (AddMessage sid ''user'' msg md) None,
                  Call (AddMessage sid ''assistant'' (result_data result) md) (Some e),
                  LogError (''Agent execution failed: '' @ str_exn env e)]"])
         (simp_all add: actions_def io_defs)
  next
    case (answered rows' w1' prompt result w2 tools md w3 w4)
    with assms p show ?thesis by (simp add: actions_def run_def)
  qed
qed

text \<open>With eight stored messages the prompt carries the last six.\<close>

lemma long_world_context:
  "get_session_messages answering_env ''s1'' 10 long_world = (Inr long_history, long_world)"
  by (simp add: stub_defs long_world_def long_history_def)

lemma long_world_prompt:
  "prompts (actions (run (execute_agent answering_env ''q5'' ''s1'' None True) long_world)) =
     [full_prompt ''q5'' (map (\<lambda>m. (row_role m, row_content m)) long_history)]"
  by (simp add: handler_defs answering_env_def stub_env_def stub_iteration_def
      run_with_parts_def extract_tool_calls_def opt_str_def actions_def long_world_def
      long_history_def)

theorem execute_agent_prompt_witness:
  "get_session_messages answering_env ''s1'' 10 long_world = (Inr long_history, long_world) \<and>
   long_history \<noteq> [] \<and>
   prompts (actions (run (execute_agent answering_env ''q5'' ''s1'' None True) long_world)) =
     [spec_prompt ''q5''
        [(''user'', ''q2''), (''assistant'', ''a2''), (''user'', ''q3''), (''assistant'', ''a3''),
         (''user'', ''q4''), (''assistant'', ''a4'')]]"
proof -
  have ne: "long_history \<noteq> []" by (simp add: long_history_def)
  from execute_agent_prompt [OF long_world_context ne, of "''q5''" None]
  show ?thesis
    using long_world_context ne by (simp add: long_history_def row_def)
qed

text \<open>
  The claim as stated fails: the assembler returns the eight messages, fewer than ten,
  and the prompt is not the header, all eight as lines, and the question.
\<close>

theorem execute_agent_prompt_counterexample:
  "get_session_messages answering_env ''s1'' 10 long_world = (Inr long_history, long_world) \<and>
   length long_history \<le> 10 \<and>
   prompts (actions (run (execute_agent answering_env ''q5'' ''s1'' None True) long_world)) \<noteq>
     [spec_prompt ''q5''
        [(''user'', ''q1''), (''assistant'', ''a1''), (''user'', ''q2''), (''assistant'', ''a2''),
         (''user'', ''q3''), (''assistant'', ''a3''), (''user'', ''q4''), (''assistant'', ''a4'')]]"
  by (simp add: long_world_context long_world_prompt)
     (simp add: long_history_def row_def full_prompt_def spec_prompt_def slice_from_def nl_def)


section \<open>Streamed text and the non-streaming answer\<close>





section \<open>Sessions of the compatibility endpoint\<close>

text \<open>
  Every call that saving a turn, \<^verbatim>\<open>execute_agent\<close> and the compatibility generator make is
  about the session they were given.
\<close>

lemma recover_frame:
  fixes env :: "'w env"
  shows "\<exists>r w' t'. bnd (save_conversation_turn env sid um am md) (\<lambda>_. ret x) (w, t) = (r, (w', t @ t')) \<and>
           list_all (\<lambda>c. call_session c = Some sid) (calls t')"
  by (cases rule: save_conversation_turn_cases [of env sid um md w am t])
     (simp_all add: bnd_def ret_def)

lemma execute_agent_frame:
  fixes env :: "'w env"
  shows "\<exists>r w' t'. execute_agent env msg sid uid True (w, t) = (r, (w', t @ t')) \<and>
           list_all (\<lambda>c. call_session c = Some sid) (calls t')"
proof -
  have step: "\<exists>r w' t'. execute_agent env msg sid uid True (w, t) = (r, (w', t @ t')) \<and>
           list_all (\<lambda>c. call_session c = Some sid) (calls t')"
    if eq: "execute_agent env msg sid uid True (w, t) =
              bnd (save_conversation_turn env sid msg am md) (\<lambda>_. ret x) (wk, t @ l)"
      and l: "list_all (\<lambda>c. call_session c = Some sid) (calls l)"
    for am md x wk l
  proof -
    from recover_frame [of env sid msg am md x wk "t @ l"] obtain r w' t' where
      "bnd (save_conversation_turn env sid msg am md) (\<lambda>_. ret x) (wk, t @ l) = (r, (w', (t @ l) @ t'))"
      and "list_all (\<lambda>c. call_session c = Some sid) (calls t')"
      by blast
    with eq l have "execute_agent env msg sid uid True (w, t) = (r, (w', t @ (l @ t')))"
      and "list_all (\<lambda>c. call_session c = Some sid) (calls (l @ t'))"
      by simp_all
    then show ?thesis by blast
  qed
  show ?thesis
  proof (cases rule: execute_agent_cases [of env sid w msg uid t])
    case (context_fails e w1)
    then show ?thesis by (intro step [OF context_fails(2)]) simp
  next
    case (agent_fails rows w1 prompt e w2)
    then show ?thesis by (intro step [OF agent_fails(4)]) simp
  next
    case (user_write_fails rows w1 prompt result w2 tools md e w3)
    then show ?thesis by (intro step [OF user_write_fails(7)]) simp
  next
    case (assistant_write_fails rows w1 prompt result w2 tools md w3 e w4)
    then show ?thesis by (intro step [OF assistant_write_fails(8)]) simp
  next
    case (answered rows w1 prompt result w2 tools md w3 w4)
    then show ?thesis by simp
  qed
qed

lemma generate_openai_stream_frame:
  fixes env :: "'w env"
  shows "\<exists>w' t'. generate_openai_stream env request sid um uid (w, t) = (Inr (), (w', t @ t')) \<and>
           list_all (\<lambda>c. call_session c = Some sid) (calls t')"
  by (cases rule: generate_openai_stream_cases
        [where env = env and w = w and request = request and sid = sid and um = um
           and uid = uid and t = t])
     simp_all


lemma calls_if_log [simp]: "calls (if c then [LogError l] else []) = []"
  by simp

text \<open>The handler of the endpoint makes no call.\<close>

lemma chat_completions_handler_calls:
  fixes env :: "'w env"
  shows "calls (actions
     (bnd (emit (LogError l)) (\<lambda>_.
        let error_message = str_exn env e in
        if contains ''insufficient_quota'' error_message \<or> contains ''429'' error_message then
          bnd (create_openai_response env cooldown_message ''error-session'' m False) (\<lambda>r.
            ret (Body r))
        else raise (HTTPException 500 (str_exn env e))) (w, t))) = calls t"
  by (simp add: create_openai_response_def io_defs case_prod_unfold actions_def)

text \<open>
  C10, as amended. Every compatibility request that holds a user message creates a new
  session: the internal request has no session id, so the first collaborator call of the
  request is \<^verbatim>\<open>create_session\<close>, with the caller's user identifier, and no session is looked
  up before it; every later call of the request, in both modes, is about the session id
  that \<^verbatim>\<open>create_session\<close> returned, and there is no later call when it raised.
\<close>

theorem chat_completions_creates_session:
  fixes env :: "'w env"
  assumes user: "filter (\<lambda>m. msg_role m = ''user'') (req_messages request) \<noteq> []"
  shows "calls (actions (run (serve (chat_completions env request)) w)) \<noteq> [] \<and>
         hd (calls (actions (run (serve (chat_completions env request)) w))) =
           CreateSession (req_user request)
             [(''openai_format'', JBool True), (''model'', JStr (req_model request))] \<and>
         (case fst (create_session env (req_user request)
                      [(''openai_format'', JBool True), (''model'', JStr (req_model request))] w) of
            Inr sid \<Rightarrow>
              list_all (\<lambda>c. call_session c = Some sid)
                (tl (calls (actions (run (serve (chat_completions env request)) w))))
          | Inl e \<Rightarrow> tl (calls (actions (run (serve (chat_completions env request)) w))) = [])"
proof -
  let ?um = "msg_content (last (filter (\<lambda>m. msg_role m = ''user'') (req_messages request)))"
  let ?uid = "req_user request"
  let ?md = "[(''openai_format'', JBool True), (''model'', JStr (req_model request))]"
  let ?R = "run (serve (chat_completions env request)) w"
  note defs = chat_completions_def serve_def get_or_create_session_def
    create_openai_response_def io_defs case_prod_unfold actions_def
  have conv: "convert_openai_to_internal request = Inr (?um, ?uid)"
    using user by (simp add: convert_openai_to_internal_def Let_def)
  obtain r1 w1 where c1: "create_session env ?uid ?md w = (r1, w1)"
    by (cases "create_session env ?uid ?md w")
  show ?thesis
  proof (cases r1)
    case (Inl e)
    with conv c1 have "calls (actions ?R) = [CreateSession ?uid ?md]"
      by (simp add: defs)
    with c1 Inl show ?thesis by simp
  next
    case r1: (Inr sid)
    obtain r2 w2 where c2: "get_session env sid w1 = (r2, w2)"
      by (cases "get_session env sid w1")
    show ?thesis
    proof (cases r2)
      case (Inl e)
      with conv c1 r1 c2 have "calls (actions ?R) = [CreateSession ?uid ?md, GetSession sid]"
        by (simp add: defs)
      with c1 r1 show ?thesis by simp
    next
      case r2: (Inr session_check)
      let ?t2 = "[Call (CreateSession ?uid ?md) None, Call (GetSession sid) None]
                 @ (if \<not> truthy session_check
                    then [LogError (''Session '' @ sid @ '' was not found in database after creation!'')]
                    else [])"
      have calls2: "calls ?t2 = [CreateSession ?uid ?md, GetSession sid]" by simp
      show ?thesis
      proof (cases "req_stream request")
        case True
        from generate_openai_stream_frame [of env request sid ?um ?uid w2 ?t2]
        obtain w' t' where
          g: "generate_openai_stream env request sid ?um ?uid (w2, ?t2) = (Inr (), (w', ?t2 @ t'))"
          and f: "list_all (\<lambda>c. call_session c = Some sid) (calls t')"
          by blast
        have "?R = (Inr None, (w', ?t2 @ t'))"
          using conv c1 r1 c2 r2 True g
          by (simp add: chat_completions_def serve_def get_or_create_session_def io_defs
              if_emit_run split del: if_split)
        then have "calls (actions ?R) = [CreateSession ?uid ?md, GetSession sid] @ calls t'"
          by (simp add: actions_def)
        with f c1 r1 show ?thesis by simp
      next
        case False
        from execute_agent_frame [of env ?um sid ?uid w2 ?t2]
        obtain r w' t' where
          x: "execute_agent env ?um sid ?uid True (w2, ?t2) = (r, (w', ?t2 @ t'))"
          and f: "list_all (\<lambda>c. call_session c = Some sid) (calls t')"
          by blast
        have "calls (actions ?R) = [CreateSession ?uid ?md, GetSession sid] @ calls t'"
        proof (cases r)
          case (Inl e)
          with conv c1 r1 c2 r2 False x show ?thesis
            by (simp add: chat_completions_def serve_def get_or_create_session_def
                create_openai_response_def io_defs case_prod_unfold if_emit_run actions_def
                split del: if_split)
        next
          case (Inr answer)
          with conv c1 r1 c2 r2 False x show ?thesis
            by (simp add: chat_completions_def serve_def get_or_create_session_def
                create_openai_response_def io_defs case_prod_unfold if_emit_run actions_def
                split del: if_split)
        qed
        with f c1 r1 show ?thesis by simp
      qed
    qed
  qed
qed

text \<open>The stub request with a user message: a session is created and used throughout.\<close>

theorem chat_completions_creates_session_witness:
  "filter (\<lambda>m. msg_role m = ''user'') (req_messages hi_openai_request) \<noteq> [] \<and>
   hd (calls (actions (run (serve (chat_completions answering_env hi_openai_request)) empty_world))) =
     CreateSession None [(''openai_format'', JBool True), (''model'', JStr ''gpt-4o-mini'')] \<and>
   list_all (\<lambda>c. call_session c = Some ''s1'')
     (tl (calls (actions (run (serve (chat_completions answering_env hi_openai_request))
                            empty_world))))"
proof -
  have user: "filter (\<lambda>m. msg_role m = ''user'') (req_messages hi_openai_request) \<noteq> []"
    by (simp add: hi_openai_request_def)
  have created:
    "fst (create_session answering_env (req_user hi_openai_request)
            [(''openai_format'', JBool True), (''model'', JStr (req_model hi_openai_request))]
            empty_world) = Inr ''s1''"
    by (simp add: answering_env_def stub_env_def)
  have sel: "req_user hi_openai_request = None" "req_model hi_openai_request = ''gpt-4o-mini''"
    by (simp_all add: hi_openai_request_def)
  from chat_completions_creates_session [OF user, of answering_env empty_world]
  show ?thesis
    using user by (simp add: sel created [unfolded sel])
qed

text \<open>
  The claim as stated fails: a request that holds no user message makes no call at all,
  so no session is created for it.
\<close>

theorem chat_completions_creates_session_counterexample:
  "calls (actions (run (serve (chat_completions answering_env system_only_request)) empty_world)) = [] \<and>
   \<not> list_ex is_create
       (calls (actions (run (serve (chat_completions answering_env system_only_request))
                          empty_world)))"
  by (simp add: chat_completions_no_user_message_stub actions_def)

end
